theory Spec2Isabelle
  imports Complex_Main "HOL-Library.Char_ord" "HOL-Library.List_Lexorder"
begin

section \<open>The cloud output device of the UM3 network printing plugin\<close>

text \<open>
  A shallow embedding of \<^verbatim>\<open>plugins/UM3NetworkPrinting/src/Cloud/CloudOutputDevice.py\<close>.
  The device object is a record that every method takes and returns; the objects the
  device shares by reference (printer and print job output models) live in explicit
  stores; a Python exception is a value of \<open>py_error\<close>; signals, messages shown to
  the user and calls to the cloud API are appended to the trace \<open>events\<close> in the order
  in which the code performs them. Calls to the logger are left out: they have no
  effect on the device.
\<close>

subsection \<open>Translated texts (class T)\<close>

definition BLOCKED_UPLOADING :: string where
  "BLOCKED_UPLOADING =
     ''Sending new jobs (temporarily) blocked, still sending the previous print job.''"

definition COULD_NOT_EXPORT :: string where
  "COULD_NOT_EXPORT = ''Could not export print job.''"

definition WRITE_FAILED :: string where
  "WRITE_FAILED = ''There are no file formats available to write with!''"

definition SENDING_DATA_TEXT :: string where
  "SENDING_DATA_TEXT = ''Sending data to remote cluster''"

definition SENDING_DATA_TITLE :: string where
  "SENDING_DATA_TITLE = ''Sending data to remote cluster''"

definition ERROR :: string where
  "ERROR = ''Error''"

definition UPLOAD_ERROR :: string where
  "UPLOAD_ERROR = ''Could not upload the data to the printer.''"

definition UPLOAD_SUCCESS_TITLE :: string where
  "UPLOAD_SUCCESS_TITLE = ''Data Sent''"

definition UPLOAD_SUCCESS_TEXT :: string where
  "UPLOAD_SUCCESS_TEXT = ''Print job was successfully sent to the printer.''"

subsection \<open>Exceptions\<close>

datatype py_error =
    KeyError string
  | TypeError
  | AttributeError
  | ValueError
  | WriteRequestFailedError string

subsection \<open>Data received from the cloud (module Models)\<close>

text \<open>
  Several classes of the source have fields of the same name (\<open>uuid\<close>, \<open>name\<close>,
  \<open>status\<close>, \<open>material\<close>); where two would clash, the field carries a short prefix
  of its class.
\<close>

record CloudClusterPrinterConfigurationMaterial =
  guid :: string
  brand :: string
  color :: string
  material :: string

record CloudClusterPrinterConfiguration =
  print_core_id :: string
  cfg_material :: CloudClusterPrinterConfigurationMaterial

record CloudClusterPrinter =
  uuid :: string
  friendly_name :: string
  machine_variant :: string
  status :: string
  enabled :: bool
  configuration :: "CloudClusterPrinterConfiguration list"
  firmware_version :: string

record CloudClusterPrintJob =
  job_uuid :: string
  job_name :: string
  printer_uuid :: string
  owner :: string
  job_status :: string
  time_total :: int
  time_elapsed :: int

record CloudClusterStatus =
  status_printers :: "CloudClusterPrinter list"
  status_print_jobs :: "CloudClusterPrintJob list"

record CloudJobUploadRequest =
  request_job_name :: string
  file_size :: nat
  content_type :: string

text \<open>The upload slot handed out by the cloud is opaque to this file.\<close>

type_synonym CloudJobResponse = string

record CloudPrintResponse =
  cluster_job_id :: string

subsection \<open>Output models\<close>

record MaterialOutputModel =
  mat_guid :: string
  mat_type :: string
  mat_brand :: string
  mat_color :: string
  mat_name :: string

record ExtruderOutputModel =
  hotendID :: string
  activeMaterial :: "MaterialOutputModel option"

text \<open>
  A printer output model. \<open>p_controller\<close> is the output device the model's controller
  was created for (\<open>PrinterOutputController(self)\<close>).
\<close>

record PrinterOutputModel =
  p_controller :: string
  p_key :: string
  p_name :: string
  p_type :: string
  p_state :: string
  p_firmware_version :: string
  p_extruders :: "ExtruderOutputModel list"

text \<open>
  A print job output model. \<open>j_assignedPrinter\<close> is a reference into the store of
  printer output models.
\<close>

record UM3PrintJobOutputModel =
  j_controller :: string
  j_key :: string
  j_name :: string
  j_assignedPrinter :: "nat option"
  j_timeTotal :: int
  j_timeElapsed :: int
  j_owner :: string
  j_state :: string

subsection \<open>Messages, signals and API calls\<close>

record message =
  msg_text :: string
  msg_title :: string
  msg_progress :: "int option"
  msg_lifetime :: nat
  msg_dismissable :: bool
  msg_use_inactivity_timer :: bool

datatype mesh = StringIO string | BytesIO string

fun getvalue :: "mesh \<Rightarrow> string" where
  "getvalue (StringIO s) = s"
| "getvalue (BytesIO s) = s"

text \<open>
  What the device does to the outside, in order: the signals it emits, the messages it
  shows and hides, and the requests it hands to the API client. A request carries what
  its callbacks close over.
\<close>

datatype event =
    WriteStarted
  | WriteFinished
  | WriteError
  | PrintersChanged
  | PrintJobsChanged
  | MessageShown message
  | MessageHidden message
  | GetClusterStatus string
  | RequestUpload CloudJobUploadRequest string
  | UploadMesh CloudJobResponse string
  | RequestPrint string string

datatype AuthState =
    NotAuthenticated
  | AuthenticationRequested
  | Authenticated
  | AuthenticationDenied
  | AuthenticationReceived

subsection \<open>The device\<close>

text \<open>
  \<open>printer_store\<close> and \<open>job_store\<close> hold every output model allocated so far; a
  reference is an index into the store, and allocation appends. \<open>printers\<close> and
  \<open>print_jobs\<close> are the lists \<^verbatim>\<open>self._printers\<close> and \<^verbatim>\<open>self._print_jobs\<close> of
  references. \<open>last_response_time\<close> is the clock reading kept by the base class,
  in seconds.
\<close>

record device =
  device_id :: string
  printer_store :: "PrinterOutputModel list"
  job_store :: "UM3PrintJobOutputModel list"
  printers :: "nat list"
  print_jobs :: "nat list"
  number_of_extruders :: nat
  sending_job :: bool
  progress_message :: "message option"
  last_response_time :: "real option"
  authentication_state :: AuthState
  events :: "event list"

definition emit :: "event \<Rightarrow> device \<Rightarrow> device" where
  "emit e d = d\<lparr>events := events d @ [e]\<rparr>"

text \<open>The state \<^verbatim>\<open>__init__\<close> leaves behind.\<close>

definition init :: "string \<Rightarrow> device" where
  "init dev_id =
     \<lparr>device_id = dev_id, printer_store = [], job_store = [], printers = [],
      print_jobs = [], number_of_extruders = 2, sending_job = False,
      progress_message = None, last_response_time = None,
      authentication_state = NotAuthenticated, events = []\<rparr>"

subsection \<open>The application around the device\<close>

typedecl SceneNode

datatype OutputMode = TextMode | BinaryMode

record file_format =
  mime_type :: string
  extension :: string
  mode :: OutputMode

record FileWriter =
  write_nodes :: "SceneNode list \<Rightarrow> string"

record FileHandler =
  getSupportedFileTypesWrite :: "file_format list"
  getWriterByMimeType :: "string \<Rightarrow> FileWriter option"

record material_container =
  color_code :: string
  container_brand :: string
  container_material :: string
  container_name :: string

record material_group =
  is_read_only :: bool
  group_name :: string
  root_material_container :: material_container

text \<open>
  What the device asks of \<^verbatim>\<open>CuraApplication\<close> and of its own base class:
  the mesh file handler, the meta data of the global container stack (if there is a
  stack), whether the firmware version is at least 4.4 (class \<^verbatim>\<open>Version\<close> is not
  part of this file), the material manager's groups by GUID, and whether the account is
  logged in.
\<close>

record application =
  getMeshFileHandler :: FileHandler
  getGlobalContainerStack :: "(string \<Rightarrow> string option) option"
  firmware_at_least_4_4 :: bool
  getMaterialGroupListByGUID :: "string \<Rightarrow> material_group list option"
  isLoggedIn :: bool

subsection \<open>Strings: split and strip\<close>

text \<open>\<^verbatim>\<open>s.split(c)\<close>: the pieces between the separators; never an empty list.\<close>

fun split :: "char \<Rightarrow> string \<Rightarrow> string list" where
  "split c [] = [[]]"
| "split c (x # xs) =
     (if x = c then [] # split c xs
      else (case split c xs of
              [] \<Rightarrow> [[x]]
            | w # ws \<Rightarrow> (x # w) # ws))"

definition is_space :: "char \<Rightarrow> bool" where
  "is_space ch =
     (let n = (of_char ch :: nat)
      in (9 \<le> n \<and> n \<le> 13) \<or> (28 \<le> n \<and> n \<le> 32) \<or> n = 133 \<or> n = 160)"

definition strip :: "string \<Rightarrow> string" where
  "strip s = rev (dropWhile is_space (rev (dropWhile is_space s)))"

subsection \<open>The upload pipeline\<close>

definition resetUploadProgress :: "device \<Rightarrow> device" where
  "resetUploadProgress d =
     (case progress_message d of
        Some m \<Rightarrow> (emit (MessageHidden m) d)\<lparr>progress_message := None\<rparr>
      | None \<Rightarrow> d)"

text \<open>
  \<^verbatim>\<open>if message:\<close> is false for \<^verbatim>\<open>None\<close> and for the empty string. The flag is
  cleared after the message is shown and before \<^verbatim>\<open>writeError\<close> is emitted.
\<close>

definition onUploadError :: "string option \<Rightarrow> device \<Rightarrow> device" where
  "onUploadError message d =
     (let d1 = resetUploadProgress d;
          d2 = (case message of
                  None \<Rightarrow> d1
                | Some m \<Rightarrow>
                    if m = [] then d1
                    else emit (MessageShown
                           \<lparr>msg_text = m, msg_title = ERROR, msg_progress = None,
                            msg_lifetime = 10, msg_dismissable = True,
                            msg_use_inactivity_timer = True\<rparr>) d1)
      in emit WriteError (d2\<lparr>sending_job := False\<rparr>))"

definition onUploadSuccess :: "CloudPrintResponse \<Rightarrow> device \<Rightarrow> device" where
  "onUploadSuccess response d =
     (let d1 = resetUploadProgress d;
          d2 = emit (MessageShown
                 \<lparr>msg_text = UPLOAD_SUCCESS_TEXT, msg_title = UPLOAD_SUCCESS_TITLE,
                  msg_progress = None, msg_lifetime = 5, msg_dismissable = True,
                  msg_use_inactivity_timer = True\<rparr>) d1
      in emit WriteFinished (d2\<lparr>sending_job := False\<rparr>))"

definition updateUploadProgress :: "int \<Rightarrow> device \<Rightarrow> device" where
  "updateUploadProgress progress d =
     (let m = (case progress_message d of
                 None \<Rightarrow>
                   \<lparr>msg_text = SENDING_DATA_TEXT, msg_title = SENDING_DATA_TITLE,
                    msg_progress = Some (- 1), msg_lifetime = 0, msg_dismissable = False,
                    msg_use_inactivity_timer = False\<rparr>
               | Some m \<Rightarrow> m);
          m' = m\<lparr>msg_progress := Some progress\<rparr>
      in emit (MessageShown m') (d\<lparr>progress_message := Some m'\<rparr>))"

definition sendPrintJob :: "string \<Rightarrow> string \<Rightarrow> mesh \<Rightarrow> device \<Rightarrow> device" where
  "sendPrintJob file_name ctype stream d =
     (let mesh = getvalue stream;
          request = \<lparr>request_job_name = file_name, file_size = length mesh,
                     content_type = ctype\<rparr>
      in emit (RequestUpload request mesh) d)"

text \<open>
  The callbacks of the three API calls. \<^verbatim>\<open>uploadMesh\<close> is the only call that is
  given an error callback; \<open>onUploadMeshError\<close> is that lambda.
\<close>

definition onPrintJobCreated :: "string \<Rightarrow> CloudJobResponse \<Rightarrow> device \<Rightarrow> device" where
  "onPrintJobCreated mesh job_response d = emit (UploadMesh job_response mesh) d"

definition onPrintJobUploaded :: "string \<Rightarrow> device \<Rightarrow> device" where
  "onPrintJobUploaded job_id d = emit (RequestPrint (device_id d) job_id) d"

definition onUploadMeshError :: "device \<Rightarrow> device" where
  "onUploadMeshError d = onUploadError (Some UPLOAD_ERROR) d"

subsection \<open>Choosing the file format and the writer\<close>

text \<open>
  A dictionary is the list of its items in insertion order. Built by a comprehension
  \<^verbatim>\<open>{key(x): x for x in xs}\<close>, a later item overwrites the value of an earlier one
  with the same key. \<open>keys\<close> is \<^verbatim>\<open>set(d)\<close> and \<open>getitem\<close> is \<^verbatim>\<open>d[k]\<close>.
\<close>

fun dict_set :: "string \<Rightarrow> 'a \<Rightarrow> (string \<times> 'a) list \<Rightarrow> (string \<times> 'a) list" where
  "dict_set k v [] = [(k, v)]"
| "dict_set k v ((k', v') # kvs) =
     (if k' = k then (k, v) # kvs else (k', v') # dict_set k v kvs)"

definition dict_of :: "('a \<Rightarrow> string) \<Rightarrow> 'a list \<Rightarrow> (string \<times> 'a) list" where
  "dict_of key xs = fold (\<lambda>x kvs. dict_set (key x) x kvs) xs []"

definition keys :: "(string \<times> 'a) list \<Rightarrow> string set" where
  "keys kvs = set (map fst kvs)"

definition getitem :: "(string \<times> 'a) list \<Rightarrow> string \<Rightarrow> py_error + 'a" where
  "getitem kvs k = (case map_of kvs k of None \<Rightarrow> Inl (KeyError k) | Some v \<Rightarrow> Inr v)"

text \<open>
  \<^verbatim>\<open>[format_by_mimetype[mimetype] for mimetype in machine_file_formats]\<close>: the first
  missing key raises \<^verbatim>\<open>KeyError\<close>.
\<close>

fun lookup_each :: "(string \<times> 'a) list \<Rightarrow> string list \<Rightarrow> py_error + 'a list" where
  "lookup_each m [] = Inr []"
| "lookup_each m (k # ks) =
     (case getitem m k of
        Inl e \<Rightarrow> Inl e
      | Inr v \<Rightarrow>
          (case lookup_each m ks of
             Inl e \<Rightarrow> Inl e
           | Inr vs \<Rightarrow> Inr (v # vs)))"

text \<open>
  The result is \<open>Inr None\<close> where the source returns without a value (no global
  stack).
\<close>

definition determineFileFormat ::
  "application \<Rightarrow> FileHandler option \<Rightarrow> py_error + file_format option" where
  "determineFileFormat app file_handler =
     (let file_formats =
            (case file_handler of
               Some h \<Rightarrow> getSupportedFileTypesWrite h
             | None \<Rightarrow> getSupportedFileTypesWrite (getMeshFileHandler app))
      in case getGlobalContainerStack app of
           None \<Rightarrow> Inr None
         | Some getMetaDataEntry \<Rightarrow>
             (case getMetaDataEntry ''file_formats'' of
                None \<Rightarrow> Inl AttributeError
              | Some entry \<Rightarrow>
                  (let machine_file_formats = map strip (split CHR '';'' entry);
                       machine_file_formats =
                         (if ''application/x-ufp'' \<notin> set machine_file_formats
                             \<and> firmware_at_least_4_4 app
                          then ''application/x-ufp'' # machine_file_formats
                          else machine_file_formats);
                       format_by_mimetype = dict_of mime_type file_formats
                   in case lookup_each format_by_mimetype machine_file_formats of
                        Inl e \<Rightarrow> Inl e
                      | Inr [] \<Rightarrow> Inl (WriteRequestFailedError WRITE_FAILED)
                      | Inr (f # fs) \<Rightarrow> Inr (Some f))))"

text \<open>
  \<^verbatim>\<open>file_format["mime_type"]\<close> raises \<^verbatim>\<open>TypeError\<close> when no format was returned.
\<close>

definition determineWriter ::
  "application \<Rightarrow> FileHandler option \<Rightarrow> file_format option \<Rightarrow> py_error + FileWriter option" where
  "determineWriter app file_handler format =
     (case format of
        None \<Rightarrow> Inl TypeError
      | Some f \<Rightarrow>
          (case file_handler of
             Some h \<Rightarrow> Inr (getWriterByMimeType h (mime_type f))
           | None \<Rightarrow> Inr (getWriterByMimeType (getMeshFileHandler app) (mime_type f))))"

text \<open>
  \<^verbatim>\<open>requestWrite\<close>: the first component is the exception that leaves the method, if
  any; the second is the device as the method leaves it, also when it raises.
\<close>

definition requestWrite ::
  "application \<Rightarrow> SceneNode list \<Rightarrow> string option \<Rightarrow> FileHandler option \<Rightarrow> device
     \<Rightarrow> py_error option \<times> device" where
  "requestWrite app nodes file_name file_handler d =
     (if sending_job d then (None, onUploadError (Some BLOCKED_UPLOADING) d)
      else
        (let d1 = emit WriteStarted (d\<lparr>sending_job := True\<rparr>)
         in case determineFileFormat app file_handler of
              Inl e \<Rightarrow> (Some e, d1)
            | Inr format \<Rightarrow>
                (case determineWriter app file_handler format of
                   Inl e \<Rightarrow> (Some e, d1)
                 | Inr None \<Rightarrow> (None, onUploadError (Some COULD_NOT_EXPORT) d1)
                 | Inr (Some writer) \<Rightarrow>
                     (case format of
                        None \<Rightarrow> (Some TypeError, d1)
                      | Some f \<Rightarrow>
                          (let content = write_nodes writer nodes;
                               stream = (if mode f = TextMode then StringIO content
                                         else BytesIO content)
                           in case file_name of
                                None \<Rightarrow> (Some TypeError, d1)
                              | Some name \<Rightarrow>
                                  (None, sendPrintJob (name @ ''.'' @ extension f)
                                           (mime_type f) stream d1))))))"

subsection \<open>Iterating over a set\<close>

text \<open>
  The order in which Python enumerates a set of strings is not determined by the
  program. The loops over sets take the enumeration \<open>iter\<close> as a parameter; what the
  language guarantees of it is that a finite set is enumerated completely and without
  repetition.
\<close>

definition iter_ok :: "(string set \<Rightarrow> string list) \<Rightarrow> bool" where
  "iter_ok iter \<longleftrightarrow> (\<forall>S. finite S \<longrightarrow> set (iter S) = S \<and> distinct (iter S))"

text \<open>A \<^verbatim>\<open>for\<close> loop whose body may raise: the first exception ends the loop.\<close>

fun for_each :: "('a \<Rightarrow> 's \<Rightarrow> py_error + 's) \<Rightarrow> 'a list \<Rightarrow> 's \<Rightarrow> py_error + 's" where
  "for_each body [] s = Inr s"
| "for_each body (x # xs) s =
     (case body x s of
        Inl e \<Rightarrow> Inl e
      | Inr s' \<Rightarrow> for_each body xs s')"

subsection \<open>Materials\<close>

text \<open>
  \<^verbatim>\<open>sorted(groups, key = lambda x: x.name)[0]\<close> is the first group of least name;
  \<open>sort_key\<close> is stable, as \<^verbatim>\<open>sorted\<close> is.
\<close>

definition first_by_name :: "material_group list \<Rightarrow> material_group option" where
  "first_by_name groups =
     (case sort_key group_name groups of
        [] \<Rightarrow> None
      | g # gs \<Rightarrow> Some g)"

definition createMaterialOutputModel ::
  "application \<Rightarrow> CloudClusterPrinterConfigurationMaterial \<Rightarrow> MaterialOutputModel" where
  "createMaterialOutputModel app mat =
     (let material_group_list =
            (case getMaterialGroupListByGUID app (guid mat) of
               None \<Rightarrow> []
             | Some groups \<Rightarrow> groups);
          read_only_material_group_list = filter is_read_only material_group_list;
          non_read_only_material_group_list =
            filter (\<lambda>x. \<not> is_read_only x) material_group_list;
          material_group =
            (if read_only_material_group_list \<noteq> []
             then first_by_name read_only_material_group_list
             else if non_read_only_material_group_list \<noteq> []
             then first_by_name non_read_only_material_group_list
             else None)
      in case material_group of
           Some g \<Rightarrow>
             (let container = root_material_container g
              in \<lparr>mat_guid = guid mat, mat_type = container_material container,
                  mat_brand = container_brand container, mat_color = color_code container,
                  mat_name = container_name container\<rparr>)
         | None \<Rightarrow>
             \<lparr>mat_guid = guid mat, mat_type = material mat, mat_brand = brand mat,
              mat_color = color mat,
              mat_name = (if material mat = ''empty'' then ''Empty'' else ''Unknown'')\<rparr>)"

subsection \<open>Printers\<close>

text \<open>
  Modelled from the spec: the constructor of \<^verbatim>\<open>PrinterOutputModel\<close> (class
  \<^verbatim>\<open>cura.PrinterOutput.PrinterOutputModel\<close>, not in this file), which creates the
  model's extruders, as many as its second argument says, each with no active material.
\<close>

definition new_PrinterOutputModel :: "string \<Rightarrow> nat \<Rightarrow> string \<Rightarrow> PrinterOutputModel" where
  "new_PrinterOutputModel controller number firmware =
     \<lparr>p_controller = controller, p_key = [], p_name = [], p_type = [], p_state = [],
      p_firmware_version = firmware,
      p_extruders = replicate number \<lparr>hotendID = [], activeMaterial = None\<rparr>\<rparr>"

text \<open>The body of the loop of \<^verbatim>\<open>_updatePrinter\<close>, on one extruder.\<close>

definition update_extruder ::
  "application \<Rightarrow> CloudClusterPrinterConfiguration \<Rightarrow> ExtruderOutputModel
     \<Rightarrow> ExtruderOutputModel" where
  "update_extruder app extruder_data extruder =
     (let extruder = extruder\<lparr>hotendID := print_core_id extruder_data\<rparr>
      in if (case activeMaterial extruder of
               None \<Rightarrow> True
             | Some m \<Rightarrow> mat_guid m \<noteq> guid (cfg_material extruder_data))
         then extruder\<lparr>activeMaterial :=
                Some (createMaterialOutputModel app (cfg_material extruder_data))\<rparr>
         else extruder)"

text \<open>
  The loop over \<^verbatim>\<open>range(0, len(printer.configuration))\<close>: an index outside
  \<^verbatim>\<open>model.extruders\<close> raises \<^verbatim>\<open>IndexError\<close>, which the loop catches and leaves by.
\<close>

fun extruder_loop ::
  "application \<Rightarrow> CloudClusterPrinterConfiguration list \<Rightarrow> nat list
     \<Rightarrow> ExtruderOutputModel list \<Rightarrow> ExtruderOutputModel list" where
  "extruder_loop app config [] extruders = extruders"
| "extruder_loop app config (index # rest) extruders =
     (if index < length extruders \<and> index < length config
      then extruder_loop app config rest
             (extruders[index := update_extruder app (config ! index) (extruders ! index)])
      else extruders)"

text \<open>\<^verbatim>\<open>_updatePrinter\<close> changes the model it is given and nothing else.\<close>

definition updatePrinter ::
  "application \<Rightarrow> PrinterOutputModel \<Rightarrow> CloudClusterPrinter \<Rightarrow> PrinterOutputModel" where
  "updatePrinter app model printer =
     (let model = model\<lparr>p_key := uuid printer\<rparr>;
          model = model\<lparr>p_name := friendly_name printer\<rparr>;
          model = model\<lparr>p_type := machine_variant printer\<rparr>;
          model = model\<lparr>p_state := (if enabled printer then status printer else ''disabled'')\<rparr>
      in model\<lparr>p_extruders :=
           extruder_loop app (configuration printer) [0..<length (configuration printer)]
             (p_extruders model)\<rparr>)"

text \<open>The model behind a reference is changed in place: the reference stays.\<close>

definition modify_printer ::
  "nat \<Rightarrow> (PrinterOutputModel \<Rightarrow> PrinterOutputModel) \<Rightarrow> device \<Rightarrow> device" where
  "modify_printer r f d =
     d\<lparr>printer_store := (printer_store d)[r := f (printer_store d ! r)]\<rparr>"

definition printer_key :: "device \<Rightarrow> nat \<Rightarrow> string" where
  "printer_key d r = p_key (printer_store d ! r)"

definition addPrinter :: "application \<Rightarrow> CloudClusterPrinter \<Rightarrow> device \<Rightarrow> device" where
  "addPrinter app printer d =
     (let model = new_PrinterOutputModel (device_id d) (length (configuration printer))
                    (firmware_version printer);
          r = length (printer_store d);
          d = d\<lparr>printer_store := printer_store d @ [model]\<rparr>;
          d = d\<lparr>printers := printers d @ [r]\<rparr>
      in modify_printer r (\<lambda>model. updatePrinter app model printer) d)"

text \<open>\<^verbatim>\<open>self._printers.remove(x)\<close>: the first occurrence goes; none raises.\<close>

definition printers_remove :: "nat \<Rightarrow> device \<Rightarrow> py_error + device" where
  "printers_remove r d =
     (if r \<in> set (printers d) then Inr (d\<lparr>printers := remove1 r (printers d)\<rparr>)
      else Inl ValueError)"

definition remote_printers :: "CloudClusterPrinter list \<Rightarrow> (string \<times> CloudClusterPrinter) list" where
  "remote_printers ps = dict_of uuid ps"

definition current_printers :: "device \<Rightarrow> (string \<times> nat) list" where
  "current_printers d = dict_of (printer_key d) (printers d)"

definition removed_printer_ids :: "CloudClusterPrinter list \<Rightarrow> device \<Rightarrow> string set" where
  "removed_printer_ids ps d = keys (current_printers d) - keys (remote_printers ps)"

definition new_printer_ids :: "CloudClusterPrinter list \<Rightarrow> device \<Rightarrow> string set" where
  "new_printer_ids ps d = keys (remote_printers ps) - keys (current_printers d)"

definition updated_printer_ids :: "CloudClusterPrinter list \<Rightarrow> device \<Rightarrow> string set" where
  "updated_printer_ids ps d = keys (current_printers d) \<inter> keys (remote_printers ps)"

definition updatePrinters ::
  "(string set \<Rightarrow> string list) \<Rightarrow> application \<Rightarrow> CloudClusterPrinter list \<Rightarrow> device
     \<Rightarrow> py_error + device" where
  "updatePrinters iter app ps d =
     (let remote = remote_printers ps;
          current = current_printers d
      in case for_each
                (\<lambda>printer_guid d.
                   case getitem current printer_guid of
                     Inl e \<Rightarrow> Inl e
                   | Inr r \<Rightarrow> printers_remove r d)
                (iter (removed_printer_ids ps d)) d of
           Inl e \<Rightarrow> Inl e
         | Inr d1 \<Rightarrow>
             (case for_each
                     (\<lambda>printer_guid d.
                        case getitem remote printer_guid of
                          Inl e \<Rightarrow> Inl e
                        | Inr printer \<Rightarrow> Inr (addPrinter app printer d))
                     (iter (new_printer_ids ps d)) d1 of
                Inl e \<Rightarrow> Inl e
              | Inr d2 \<Rightarrow>
                  (case for_each
                          (\<lambda>printer_guid d.
                             case getitem current printer_guid of
                               Inl e \<Rightarrow> Inl e
                             | Inr r \<Rightarrow>
                                 (case getitem remote printer_guid of
                                    Inl e \<Rightarrow> Inl e
                                  | Inr printer \<Rightarrow>
                                      Inr (modify_printer r
                                             (\<lambda>model. updatePrinter app model printer) d)))
                          (iter (updated_printer_ids ps d)) d2 of
                     Inl e \<Rightarrow> Inl e
                   | Inr d3 \<Rightarrow> Inr (emit PrintersChanged d3))))"

subsection \<open>Print jobs\<close>

text \<open>
  Modelled from the spec: the constructor of \<^verbatim>\<open>UM3PrintJobOutputModel\<close> (not in this
  file), which takes the controller, the key and the name, and leaves the other fields
  unset.
\<close>

definition new_UM3PrintJobOutputModel :: "string \<Rightarrow> string \<Rightarrow> string \<Rightarrow> UM3PrintJobOutputModel" where
  "new_UM3PrintJobOutputModel controller key name =
     \<lparr>j_controller = controller, j_key = key, j_name = name, j_assignedPrinter = None,
      j_timeTotal = 0, j_timeElapsed = 0, j_owner = [], j_state = []\<rparr>"

text \<open>
  \<^verbatim>\<open>next(p for p in self._printers if job.printer_uuid == p.key)\<close> is the first such
  printer; \<^verbatim>\<open>StopIteration\<close> is caught and the method returns.
\<close>

definition addPrintJob :: "CloudClusterPrintJob \<Rightarrow> device \<Rightarrow> device" where
  "addPrintJob job d =
     (case find (\<lambda>p. printer_uuid job = printer_key d p) (printers d) of
        None \<Rightarrow> d
      | Some printer \<Rightarrow>
          (let model = new_UM3PrintJobOutputModel (p_controller (printer_store d ! printer))
                         (job_uuid job) (job_name job);
               model = model\<lparr>j_assignedPrinter := Some printer\<rparr>;
               r = length (job_store d);
               d = d\<lparr>job_store := job_store d @ [model]\<rparr>
           in d\<lparr>print_jobs := print_jobs d @ [r]\<rparr>))"

definition updateUM3PrintJobOutputModel ::
  "UM3PrintJobOutputModel \<Rightarrow> CloudClusterPrintJob \<Rightarrow> UM3PrintJobOutputModel" where
  "updateUM3PrintJobOutputModel model job =
     (let model = model\<lparr>j_timeTotal := time_total job\<rparr>;
          model = model\<lparr>j_timeElapsed := time_elapsed job\<rparr>;
          model = model\<lparr>j_owner := owner job\<rparr>
      in model\<lparr>j_state := job_status job\<rparr>)"

definition modify_job ::
  "nat \<Rightarrow> (UM3PrintJobOutputModel \<Rightarrow> UM3PrintJobOutputModel) \<Rightarrow> device \<Rightarrow> device" where
  "modify_job r f d = d\<lparr>job_store := (job_store d)[r := f (job_store d ! r)]\<rparr>"

definition job_key :: "device \<Rightarrow> nat \<Rightarrow> string" where
  "job_key d r = j_key (job_store d ! r)"

definition print_jobs_remove :: "nat \<Rightarrow> device \<Rightarrow> py_error + device" where
  "print_jobs_remove r d =
     (if r \<in> set (print_jobs d) then Inr (d\<lparr>print_jobs := remove1 r (print_jobs d)\<rparr>)
      else Inl ValueError)"

definition remote_jobs :: "CloudClusterPrintJob list \<Rightarrow> (string \<times> CloudClusterPrintJob) list" where
  "remote_jobs jobs = dict_of job_uuid jobs"

definition current_jobs :: "device \<Rightarrow> (string \<times> nat) list" where
  "current_jobs d = dict_of (job_key d) (print_jobs d)"

definition remote_job_ids :: "CloudClusterPrintJob list \<Rightarrow> string set" where
  "remote_job_ids jobs = keys (remote_jobs jobs)"

definition current_job_ids :: "device \<Rightarrow> string set" where
  "current_job_ids d = keys (current_jobs d)"

definition removed_job_ids :: "CloudClusterPrintJob list \<Rightarrow> device \<Rightarrow> string set" where
  "removed_job_ids jobs d = current_job_ids d - remote_job_ids jobs"

definition new_job_ids :: "CloudClusterPrintJob list \<Rightarrow> device \<Rightarrow> string set" where
  "new_job_ids jobs d = remote_job_ids jobs - keys (current_jobs d)"

definition updated_job_ids :: "CloudClusterPrintJob list \<Rightarrow> device \<Rightarrow> string set" where
  "updated_job_ids jobs d = current_job_ids d \<inter> remote_job_ids jobs"

definition updatePrintJobs ::
  "(string set \<Rightarrow> string list) \<Rightarrow> CloudClusterPrintJob list \<Rightarrow> device \<Rightarrow> py_error + device" where
  "updatePrintJobs iter jobs d =
     (let remote = remote_jobs jobs;
          current = current_jobs d
      in case for_each
                (\<lambda>removed_job_id d.
                   case getitem current removed_job_id of
                     Inl e \<Rightarrow> Inl e
                   | Inr r \<Rightarrow> print_jobs_remove r d)
                (iter (removed_job_ids jobs d)) d of
           Inl e \<Rightarrow> Inl e
         | Inr d1 \<Rightarrow>
             (case for_each
                     (\<lambda>new_job_id d.
                        case getitem remote new_job_id of
                          Inl e \<Rightarrow> Inl e
                        | Inr job \<Rightarrow> Inr (addPrintJob job d))
                     (iter (new_job_ids jobs d)) d1 of
                Inl e \<Rightarrow> Inl e
              | Inr d2 \<Rightarrow>
                  (case for_each
                          (\<lambda>updated_job_id d.
                             case getitem current updated_job_id of
                               Inl e \<Rightarrow> Inl e
                             | Inr r \<Rightarrow>
                                 (case getitem remote updated_job_id of
                                    Inl e \<Rightarrow> Inl e
                                  | Inr job \<Rightarrow>
                                      Inr (modify_job r
                                             (\<lambda>model. updateUM3PrintJobOutputModel model job) d)))
                          (iter (updated_job_ids jobs d)) d2 of
                     Inl e \<Rightarrow> Inl e
                   | Inr d3 \<Rightarrow>
                       Inr (if remote_job_ids jobs \<noteq> current_job_ids d
                            then emit PrintJobsChanged d3
                            else d3))))"

subsection \<open>Polling\<close>

definition CHECK_CLUSTER_INTERVAL :: real where
  "CHECK_CLUSTER_INTERVAL = 2"

definition onStatusCallFinished ::
  "(string set \<Rightarrow> string list) \<Rightarrow> application \<Rightarrow> CloudClusterStatus \<Rightarrow> device
     \<Rightarrow> py_error + device" where
  "onStatusCallFinished iter app cluster_status d =
     (case updatePrinters iter app (status_printers cluster_status) d of
        Inl e \<Rightarrow> Inl e
      | Inr d1 \<Rightarrow> updatePrintJobs iter (status_print_jobs cluster_status) d1)"

text \<open>
  \<^verbatim>\<open>_update\<close>. The method of the base class, which runs first, is not part of this
  file and is the parameter \<open>super_update\<close>; \<open>now\<close> is what \<^verbatim>\<open>time()\<close> returns. The
  test \<^verbatim>\<open>self._last_response_time and ...\<close> is false for \<^verbatim>\<open>None\<close> and for a reading
  of zero. \<open>GetClusterStatus\<close> is the request whose callback is
  \<open>onStatusCallFinished\<close>.
\<close>

definition update :: "(device \<Rightarrow> device) \<Rightarrow> application \<Rightarrow> real \<Rightarrow> device \<Rightarrow> device" where
  "update super_update app now d =
     (let d = super_update d
      in if (case last_response_time d of
               None \<Rightarrow> False
             | Some t \<Rightarrow> t \<noteq> 0 \<and> now - t < CHECK_CLUSTER_INTERVAL)
         then d
         else if isLoggedIn app
         then emit (GetClusterStatus (device_id d)) (d\<lparr>authentication_state := Authenticated\<rparr>)
         else d\<lparr>authentication_state := NotAuthenticated\<rparr>)"

subsection \<open>Well-formed devices\<close>

text \<open>
  Every reference in the printer list points into the store, and no two printers of the
  list have the same key; likewise for the print jobs.
\<close>

definition printers_wf :: "device \<Rightarrow> bool" where
  "printers_wf d \<longleftrightarrow>
     list_all (\<lambda>r. r < length (printer_store d)) (printers d) \<and>
     distinct (map (printer_key d) (printers d))"

definition print_jobs_wf :: "device \<Rightarrow> bool" where
  "print_jobs_wf d \<longleftrightarrow>
     list_all (\<lambda>r. r < length (job_store d)) (print_jobs d) \<and>
     distinct (map (job_key d) (print_jobs d))"

subsection \<open>Notions used in the proofs\<close>

text \<open>
  The reference that \<^verbatim>\<open>current_printers[k]\<close> yields, the remote printer that
  \<^verbatim>\<open>remote_printers[k]\<close> yields, and the model that \<^verbatim>\<open>_addPrinter\<close> leaves in the
  store for a remote printer.
\<close>

definition current_printer :: "device \<Rightarrow> string \<Rightarrow> nat" where
  "current_printer d k = the (map_of (current_printers d) k)"

definition remote_printer :: "CloudClusterPrinter list \<Rightarrow> string \<Rightarrow> CloudClusterPrinter" where
  "remote_printer ps k = the (map_of (remote_printers ps) k)"

definition new_printer_model ::
  "application \<Rightarrow> device \<Rightarrow> CloudClusterPrinter \<Rightarrow> PrinterOutputModel" where
  "new_printer_model app d printer =
     updatePrinter app
       (new_PrinterOutputModel (device_id d) (length (configuration printer))
          (firmware_version printer)) printer"

subsection \<open>Example inputs\<close>

text \<open>
  A machine that wants G-code, a file handler that can write it, one that can write
  nothing, and a device in the middle of an upload: its first job was admitted, the
  upload slot was granted and the first progress report (10 percent) has arrived.
\<close>

definition gcode_format :: file_format where
  "gcode_format = \<lparr>mime_type = ''text/x-gcode'', extension = ''gcode'', mode = TextMode\<rparr>"

definition gcode_writer :: FileWriter where
  "gcode_writer = \<lparr>write_nodes = (\<lambda>nodes. ''G28'')\<rparr>"

definition gcode_handler :: FileHandler where
  "gcode_handler =
     \<lparr>getSupportedFileTypesWrite = [gcode_format],
      getWriterByMimeType = (\<lambda>m. if m = ''text/x-gcode'' then Some gcode_writer else None)\<rparr>"

definition empty_handler :: FileHandler where
  "empty_handler = \<lparr>getSupportedFileTypesWrite = [], getWriterByMimeType = (\<lambda>m. None)\<rparr>"

definition example_app :: "FileHandler \<Rightarrow> application" where
  "example_app h =
     \<lparr>getMeshFileHandler = h,
      getGlobalContainerStack =
        Some (\<lambda>k. if k = ''file_formats'' then Some ''text/x-gcode'' else None),
      firmware_at_least_4_4 = False,
      getMaterialGroupListByGUID = (\<lambda>g. None),
      isLoggedIn = True\<rparr>"

definition uploading_device :: device where
  "uploading_device =
     updateUploadProgress 10
       (onPrintJobCreated ''G28'' ''slot''
          (snd (requestWrite (example_app gcode_handler) [] (Some ''first'') None
                  (init ''cluster''))))"

definition sending_data_message :: "int \<Rightarrow> message" where
  "sending_data_message percent =
     \<lparr>msg_text = SENDING_DATA_TEXT, msg_title = SENDING_DATA_TITLE,
      msg_progress = Some percent, msg_lifetime = 0, msg_dismissable = False,
      msg_use_inactivity_timer = False\<rparr>"

definition error_message :: "string \<Rightarrow> message" where
  "error_message m =
     \<lparr>msg_text = m, msg_title = ERROR, msg_progress = None, msg_lifetime = 10,
      msg_dismissable = True, msg_use_inactivity_timer = True\<rparr>"

text \<open>
  Two printers of the cluster with two extruders each, jobs for them, and the device
  after the two printers were added.
\<close>

definition pla :: CloudClusterPrinterConfigurationMaterial where
  "pla = \<lparr>guid = ''pla-guid'', brand = ''Generic'', color = ''#ffffff'', material = ''PLA''\<rparr>"

definition example_printer :: "string \<Rightarrow> CloudClusterPrinter" where
  "example_printer u =
     \<lparr>uuid = u, friendly_name = ''Printer '' @ u, machine_variant = ''Ultimaker 3'',
      status = ''idle'', enabled = True,
      configuration = [\<lparr>print_core_id = ''AA 0.4'', cfg_material = pla\<rparr>,
                       \<lparr>print_core_id = ''BB 0.4'', cfg_material = pla\<rparr>],
      firmware_version = ''5.2''\<rparr>"

definition example_job :: "string \<Rightarrow> string \<Rightarrow> CloudClusterPrintJob" where
  "example_job u p =
     \<lparr>job_uuid = u, job_name = ''job '' @ u, printer_uuid = p, owner = ''ann'',
      job_status = ''printing'', time_total = 100, time_elapsed = 10\<rparr>"

definition two_printers :: device where
  "two_printers =
     addPrinter (example_app gcode_handler) (example_printer ''P2'')
       (addPrinter (example_app gcode_handler) (example_printer ''P1'') (init ''cluster''))"

definition renamed_printer :: CloudClusterPrinter where
  "renamed_printer =
     (example_printer ''P1'')\<lparr>friendly_name := ''Workshop'', status := ''printing''\<rparr>"

definition single_extruder_printer :: CloudClusterPrinter where
  "single_extruder_printer =
     (example_printer ''P9'')\<lparr>configuration :=
        [\<lparr>print_core_id = ''AA 0.4'', cfg_material = pla\<rparr>]\<rparr>"

definition one_job :: device where
  "one_job = addPrintJob (example_job ''J1'' ''P1'') two_printers"

definition progressed_job :: CloudClusterPrintJob where
  "progressed_job = (example_job ''J1'' ''P1'')\<lparr>time_elapsed := 50, owner := ''bob''\<rparr>"

definition recently_polled :: device where
  "recently_polled = (init ''cluster'')\<lparr>last_response_time := Some 1000\<rparr>"

definition logged_out_app :: application where
  "logged_out_app = (example_app gcode_handler)\<lparr>isLoggedIn := False\<rparr>"

definition snapshot :: CloudClusterStatus where
  "snapshot =
     \<lparr>status_printers = [example_printer ''P1'', example_printer ''P2''],
      status_print_jobs = [example_job ''J1'' ''P2'', example_job ''J2'' ''P3'']\<rparr>"

section \<open>The upload pipeline: admission and failure\<close>

lemma split_not_Nil: "split c s \<noteq> []"
  by (induction s) (auto split: list.splits)

lemma lookup_each_length: "lookup_each m ks = Inr vs \<Longrightarrow> length vs = length ks"
  by (induction ks arbitrary: vs) (auto split: sum.splits)

lemma lookup_each_error: "lookup_each m ks = Inl e \<Longrightarrow> \<exists>k. e = KeyError k"
  by (induction ks) (auto simp: getitem_def split: sum.splits option.splits)

lemma lookup_each_Nil: "lookup_each m ks = Inr [] \<Longrightarrow> ks = []"
  using lookup_each_length by fastforce

lemma first_format_not_failed:
  "ks \<noteq> [] \<Longrightarrow>
   (case lookup_each m ks of
      Inl e \<Rightarrow> Inl e
    | Inr [] \<Rightarrow> Inl (WriteRequestFailedError w)
    | Inr (f # fs) \<Rightarrow> Inr (Some f)) \<noteq> Inl (WriteRequestFailedError msg)"
  by (auto split: sum.splits list.splits dest: lookup_each_error lookup_each_Nil)

text \<open>
  \<^verbatim>\<open>split\<close> never returns an empty list and the comprehension keeps the length, so
  the test \<^verbatim>\<open>len(file_formats) == 0\<close> of \<^verbatim>\<open>_determineFileFormat\<close> never holds: a
  machine format that the application cannot write surfaces as a \<^verbatim>\<open>KeyError\<close>.
\<close>

lemma determineFileFormat_never_WriteRequestFailed:
  "determineFileFormat app file_handler \<noteq> Inl (WriteRequestFailedError msg)"
  by (simp add: determineFileFormat_def Let_def first_format_not_failed split_not_Nil
        split: option.splits del: lookup_each.simps)

lemma requestWrite_blocked:
  "sending_job d \<Longrightarrow>
   requestWrite app nodes file_name file_handler d =
     (None, onUploadError (Some BLOCKED_UPLOADING) d)"
  by (simp add: requestWrite_def)

lemma sending_job_onUploadError: "sending_job (onUploadError message d) = False"
  by (simp add: onUploadError_def Let_def emit_def split: option.splits)

lemma progress_message_onUploadError: "progress_message (onUploadError message d) = None"
  by (simp add: onUploadError_def resetUploadProgress_def Let_def emit_def
        split: option.splits)

text \<open>
  What \<^verbatim>\<open>_onUploadError\<close> does, in order: it hides the progress message if there is
  one, shows the error message if one was given, clears the flag and emits
  \<^verbatim>\<open>writeError\<close>. The failure of the transfer and the success of the submission end
  with the flag cleared.
\<close>

lemma events_onUploadError:
  "events (onUploadError message d) =
     events d
     @ (case progress_message d of None \<Rightarrow> [] | Some m \<Rightarrow> [MessageHidden m])
     @ (case message of
          None \<Rightarrow> []
        | Some m \<Rightarrow> if m = [] then [] else [MessageShown (error_message m)])
     @ [WriteError]"
  by (simp add: onUploadError_def resetUploadProgress_def Let_def emit_def error_message_def
        split: option.splits)

lemma onUploadMeshError_clears_gate:
  "sending_job (onUploadMeshError d) = False \<and> progress_message (onUploadMeshError d) = None"
  by (simp add: onUploadMeshError_def sending_job_onUploadError progress_message_onUploadError)

lemma onUploadSuccess_clears_gate:
  "sending_job (onUploadSuccess response d) = False \<and>
   progress_message (onUploadSuccess response d) = None"
  by (simp add: onUploadSuccess_def resetUploadProgress_def Let_def emit_def
        split: option.splits)

text \<open>
  An exception that leaves \<^verbatim>\<open>requestWrite\<close> leaves the device admitted: the flag
  set, \<^verbatim>\<open>writeStarted\<close> emitted and nothing else done.
\<close>

lemma requestWrite_raise_keeps_gate:
  "\<not> sending_job d \<Longrightarrow> requestWrite app nodes file_name file_handler d = (Some e, d') \<Longrightarrow>
   d' = emit WriteStarted (d\<lparr>sending_job := True\<rparr>)"
  by (auto simp: requestWrite_def Let_def split: sum.splits option.splits)

lemma uploading_device_eq:
  "uploading_device =
     (init ''cluster'')\<lparr>sending_job := True,
       progress_message := Some (sending_data_message 10),
       events := [WriteStarted,
                  RequestUpload \<lparr>request_job_name = ''first.gcode'', file_size = 3,
                                 content_type = ''text/x-gcode''\<rparr> ''G28'',
                  UploadMesh ''slot'' ''G28'',
                  MessageShown (sending_data_message 10)]\<rparr>"
  by (simp add: uploading_device_def requestWrite_def determineFileFormat_def
        determineWriter_def example_app_def gcode_handler_def init_def emit_def strip_def
        is_space_def dict_of_def getitem_def gcode_format_def gcode_writer_def
        sendPrintJob_def updateUploadProgress_def onPrintJobCreated_def
        sending_data_message_def Let_def)

text \<open>
  C1. A call to \<^verbatim>\<open>requestWrite\<close> while a job is being sent is rejected with the
  blocked message and issues no upload request, but it does not leave the pipeline as it
  was: on the device in the middle of its first upload, the rejected second call hides
  the progress message of the first job and clears the sending flag, although the
  first job is still being sent.
\<close>

theorem requestWrite_while_sending_clears_gate:
  "sending_job uploading_device \<and>
   progress_message uploading_device = Some (sending_data_message 10) \<and>
   requestWrite (example_app gcode_handler) [] (Some ''second'') None uploading_device =
     (None,
      uploading_device\<lparr>sending_job := False, progress_message := None,
        events := events uploading_device @
          [MessageHidden (sending_data_message 10),
           MessageShown (error_message BLOCKED_UPLOADING),
           WriteError]\<rparr>)"
  by (simp add: uploading_device_eq requestWrite_def onUploadError_def
        resetUploadProgress_def emit_def init_def error_message_def BLOCKED_UPLOADING_def)

text \<open>
  C2. A failure to find a writable format does not clear the sending flag: with a
  machine that wants G-code and a file handler that can write no format,
  \<^verbatim>\<open>requestWrite\<close> on the idle device raises from \<^verbatim>\<open>_determineFileFormat\<close> after the
  flag was set, and the device is left with the flag set and only \<^verbatim>\<open>writeStarted\<close>
  emitted.
\<close>

theorem requestWrite_no_format_leaves_gate_set:
  "requestWrite (example_app empty_handler) [] (Some ''job'') None (init ''cluster'') =
     (Some (KeyError ''text/x-gcode''),
      (init ''cluster'')\<lparr>sending_job := True, events := [WriteStarted]\<rparr>)"
  by (simp add: requestWrite_def determineFileFormat_def example_app_def empty_handler_def
        init_def emit_def strip_def is_space_def dict_of_def getitem_def)

section \<open>Dictionaries and the three key sets\<close>

lemma map_of_dict_set: "map_of (dict_set k v kvs) = (map_of kvs)(k \<mapsto> v)"
  by (induction kvs) (auto simp: fun_eq_iff)

lemma keys_dom: "keys kvs = dom (map_of kvs)"
  by (simp add: keys_def dom_map_of_conv_image_fst)

lemma keys_dict_set: "keys (dict_set k v kvs) = insert k (keys kvs)"
  by (simp add: keys_dom map_of_dict_set)

lemma keys_fold_dict_set:
  "keys (fold (\<lambda>x kvs. dict_set (key x) x kvs) xs acc) = key ` set xs \<union> keys acc"
  by (induction xs arbitrary: acc) (auto simp: keys_dict_set)

lemma keys_Nil: "keys [] = {}"
  by (simp add: keys_def)

lemma keys_dict_of: "keys (dict_of key xs) = key ` set xs"
  by (simp add: dict_of_def keys_fold_dict_set keys_Nil)

lemma finite_keys: "finite (keys kvs)"
  by (simp add: keys_def)

lemma map_of_fold_dict_set:
  "map_of (fold (\<lambda>x kvs. dict_set (key x) x kvs) xs acc) k = Some v \<Longrightarrow>
   (v \<in> set xs \<and> key v = k) \<or> map_of acc k = Some v"
  by (induction xs arbitrary: acc) (fastforce simp: map_of_dict_set split: if_splits)+

lemma map_of_dict_of: "map_of (dict_of key xs) k = Some v \<Longrightarrow> v \<in> set xs \<and> key v = k"
  using map_of_fold_dict_set[of key xs "[]" k v] by (simp add: dict_of_def)

lemma getitem_keys: "k \<in> keys kvs \<Longrightarrow> \<exists>v. getitem kvs k = Inr v \<and> map_of kvs k = Some v"
  by (auto simp: getitem_def keys_dom)

text \<open>
  C3. In both reconciliations the removed keys are the local keys that are not remote,
  the added keys are the remote keys that are not local and the updated keys are those
  in both; the three sets are pairwise disjoint and together they are the union of the
  local and the remote keys. The local keys are the keys of the listed output models,
  the remote keys the UUIDs of the snapshot.
\<close>

theorem reconciliation_key_sets_partition:
  "removed_printer_ids ps d = printer_key d ` set (printers d) - uuid ` set ps \<and>
   new_printer_ids ps d = uuid ` set ps - printer_key d ` set (printers d) \<and>
   updated_printer_ids ps d = printer_key d ` set (printers d) \<inter> uuid ` set ps \<and>
   removed_printer_ids ps d \<inter> new_printer_ids ps d = {} \<and>
   removed_printer_ids ps d \<inter> updated_printer_ids ps d = {} \<and>
   new_printer_ids ps d \<inter> updated_printer_ids ps d = {} \<and>
   removed_printer_ids ps d \<union> new_printer_ids ps d \<union> updated_printer_ids ps d =
     printer_key d ` set (printers d) \<union> uuid ` set ps \<and>
   removed_job_ids js d = job_key d ` set (print_jobs d) - job_uuid ` set js \<and>
   new_job_ids js d = job_uuid ` set js - job_key d ` set (print_jobs d) \<and>
   updated_job_ids js d = job_key d ` set (print_jobs d) \<inter> job_uuid ` set js \<and>
   removed_job_ids js d \<inter> new_job_ids js d = {} \<and>
   removed_job_ids js d \<inter> updated_job_ids js d = {} \<and>
   new_job_ids js d \<inter> updated_job_ids js d = {} \<and>
   removed_job_ids js d \<union> new_job_ids js d \<union> updated_job_ids js d =
     job_key d ` set (print_jobs d) \<union> job_uuid ` set js"
  unfolding removed_printer_ids_def new_printer_ids_def updated_printer_ids_def
    removed_job_ids_def new_job_ids_def updated_job_ids_def current_job_ids_def
    remote_job_ids_def current_printers_def remote_printers_def current_jobs_def
    remote_jobs_def keys_dict_of
  by blast

section \<open>Updating one printer\<close>

lemma length_extruder_loop: "length (extruder_loop app cfg idxs exts) = length exts"
  by (induction idxs arbitrary: exts) auto

lemma extruder_loop_nth:
  "n \<le> length cfg \<Longrightarrow> j < length exts \<Longrightarrow>
   extruder_loop app cfg [i..<n] exts ! j =
     (if i \<le> j \<and> j < n then update_extruder app (cfg ! j) (exts ! j) else exts ! j)"
proof (induction "n - i" arbitrary: i exts)
  case 0
  then show ?case by auto
next
  case (Suc k)
  then have i: "i < n" and up: "[i..<n] = i # [Suc i..<n]"
    by (auto simp: upt_conv_Cons)
  show ?case
  proof (cases "i < length exts")
    case True
    let ?exts = "exts[i := update_extruder app (cfg ! i) (exts ! i)]"
    have "k = n - Suc i" using Suc.hyps(2) by simp
    from Suc.hyps(1)[OF this Suc.prems(1), of ?exts] Suc.prems(2)
    have "extruder_loop app cfg [Suc i..<n] ?exts ! j =
            (if Suc i \<le> j \<and> j < n then update_extruder app (cfg ! j) (?exts ! j)
             else ?exts ! j)"
      by simp
    with True i Suc.prems show ?thesis
      by (auto simp: up nth_list_update)
  next
    case False
    with Suc.prems show ?thesis by (simp add: up)
  qed
qed

lemma extruder_loop_eq:
  "extruder_loop app cfg [0..<length cfg] exts =
     map (\<lambda>(c, e). update_extruder app c e) (zip cfg exts) @ drop (length cfg) exts"
proof (rule nth_equalityI)
  show "length (extruder_loop app cfg [0..<length cfg] exts) =
        length (map (\<lambda>(c, e). update_extruder app c e) (zip cfg exts) @ drop (length cfg) exts)"
    by (simp add: length_extruder_loop)
next
  fix j assume "j < length (extruder_loop app cfg [0..<length cfg] exts)"
  then have j: "j < length exts" by (simp add: length_extruder_loop)
  then show "extruder_loop app cfg [0..<length cfg] exts ! j =
        (map (\<lambda>(c, e). update_extruder app c e) (zip cfg exts) @ drop (length cfg) exts) ! j"
    by (auto simp: extruder_loop_nth nth_append min_def)
qed

text \<open>
  C5. After \<^verbatim>\<open>_updatePrinter\<close> the state of the model is the remote status if the
  remote printer is enabled and \<open>disabled\<close> if it is not, whatever the status was.
  The extruders are updated pairwise with the remote configurations as far as both
  lists reach, the extruders beyond the configuration stay as they were, and the call
  raises nothing. On each updated extruder the hotend is set to the remote print core,
  and the active material is created anew when there was none or when its GUID is not
  the remote one; otherwise it is kept.
\<close>

theorem updatePrinter_effect:
  "p_state (updatePrinter app model printer) =
     (if enabled printer then status printer else ''disabled'') \<and>
   p_extruders (updatePrinter app model printer) =
     map (\<lambda>(extruder_data, extruder). update_extruder app extruder_data extruder)
       (zip (configuration printer) (p_extruders model))
     @ drop (length (configuration printer)) (p_extruders model) \<and>
   hotendID (update_extruder app extruder_data extruder) = print_core_id extruder_data \<and>
   activeMaterial (update_extruder app extruder_data extruder) =
     (case activeMaterial extruder of
        None \<Rightarrow> Some (createMaterialOutputModel app (cfg_material extruder_data))
      | Some m \<Rightarrow>
          if mat_guid m = guid (cfg_material extruder_data) then Some m
          else Some (createMaterialOutputModel app (cfg_material extruder_data)))"
  by (simp add: updatePrinter_def extruder_loop_eq update_extruder_def Let_def
        split: option.splits)

section \<open>Adding and updating print jobs\<close>

text \<open>
  C6. A job whose printer UUID is the key of no printer in the printer list is not
  added: \<^verbatim>\<open>_addPrintJob\<close> returns with the device unchanged (no model is allocated,
  the job list stays as it is) and raises nothing.
\<close>

theorem addPrintJob_missing_printer:
  "printer_uuid job \<notin> printer_key d ` set (printers d) \<Longrightarrow> addPrintJob job d = d"
proof -
  assume "printer_uuid job \<notin> printer_key d ` set (printers d)"
  then have "find (\<lambda>p. printer_uuid job = printer_key d p) (printers d) = None"
    by (auto simp: find_None_iff)
  then show ?thesis by (simp add: addPrintJob_def)
qed

theorem addPrintJob_missing_printer_witness:
  "printer_uuid (example_job ''J2'' ''P3'') \<notin> printer_key two_printers ` set (printers two_printers) \<and>
   printers two_printers = [0, 1] \<and>
   addPrintJob (example_job ''J2'' ''P3'') two_printers = two_printers"
proof -
  have h: "printer_uuid (example_job ''J2'' ''P3'')
             \<notin> printer_key two_printers ` set (printers two_printers)"
    by code_simp
  have p: "printers two_printers = [0, 1]"
    by code_simp
  show ?thesis using h p addPrintJob_missing_printer[OF h] by simp
qed

section \<open>Reconciling the printers\<close>

lemma for_each_total:
  "(\<And>x s. x \<in> set xs \<Longrightarrow> body x s = Inr (g x s)) \<Longrightarrow> for_each body xs s = Inr (fold g xs s)"
  by (induction xs arbitrary: s) auto

lemma set_fold_remove1_subset: "set (fold remove1 rs xs) \<subseteq> set xs"
proof (induction rs arbitrary: xs)
  case Nil
  then show ?case by simp
next
  case (Cons r rs)
  have "set (fold remove1 rs (remove1 r xs)) \<subseteq> set (remove1 r xs)" by (rule Cons.IH)
  also have "\<dots> \<subseteq> set xs" by (rule set_remove1_subset)
  finally show ?case by simp
qed

lemma in_set_fold_remove1: "x \<in> set xs \<Longrightarrow> x \<notin> set rs \<Longrightarrow> x \<in> set (fold remove1 rs xs)"
  by (induction rs arbitrary: xs) auto

lemma fold_remove1_distinct:
  "distinct xs \<Longrightarrow> fold remove1 rs xs = filter (\<lambda>x. x \<notin> set rs) xs"
proof (induction rs arbitrary: xs)
  case Nil
  then show ?case by simp
next
  case (Cons r rs)
  then have "fold remove1 (r # rs) xs = filter (\<lambda>x. x \<notin> set rs) (remove1 r xs)"
    by simp
  also have "\<dots> = filter (\<lambda>x. x \<notin> set rs) (filter (\<lambda>x. x \<noteq> r) xs)"
    using Cons.prems by (simp add: distinct_remove1_removeAll removeAll_filter_not_eq) metis
  also have "\<dots> = filter (\<lambda>x. x \<notin> set (r # rs)) xs"
    by (auto intro: filter_cong)
  finally show ?case .
qed

text \<open>The printer removed for a key.\<close>

lemma printers_removal_phase:
  assumes "set ks \<subseteq> keys current"
    and "distinct (map (\<lambda>k. the (map_of current k)) ks)"
    and "(\<lambda>k. the (map_of current k)) ` set ks \<subseteq> set (printers s)"
  shows "for_each
           (\<lambda>printer_guid d.
              case getitem current printer_guid of
                Inl e \<Rightarrow> Inl e
              | Inr r \<Rightarrow> printers_remove r d) ks s =
         Inr (s\<lparr>printers := fold remove1 (map (\<lambda>k. the (map_of current k)) ks) (printers s)\<rparr>)"
  using assms
proof (induction ks arbitrary: s)
  case Nil
  then show ?case by simp
next
  case (Cons k ks)
  let ?ref = "\<lambda>k. the (map_of current k)"
  from Cons.prems(1) obtain r where r: "getitem current k = Inr r" "map_of current k = Some r"
    using getitem_keys[of k current] by auto
  then have rk: "?ref k = r" by simp
  with Cons.prems(3) have rin: "r \<in> set (printers s)" by auto
  let ?s = "s\<lparr>printers := remove1 r (printers s)\<rparr>"
  have "?ref ` set ks \<subseteq> set (printers ?s)"
  proof
    fix x assume x: "x \<in> ?ref ` set ks"
    from Cons.prems(2) have "?ref k \<notin> ?ref ` set ks" by simp
    with x rk have "x \<noteq> r" by blast
    moreover from x Cons.prems(3) have "x \<in> set (printers s)" by auto
    ultimately show "x \<in> set (printers ?s)" by simp
  qed
  with Cons.IH[of ?s] Cons.prems have
    "for_each
       (\<lambda>printer_guid d.
          case getitem current printer_guid of
            Inl e \<Rightarrow> Inl e
          | Inr r \<Rightarrow> printers_remove r d) ks ?s =
     Inr (?s\<lparr>printers := fold remove1 (map ?ref ks) (printers ?s)\<rparr>)"
    by simp
  with r rin show ?case by (simp add: printers_remove_def)
qed

lemma addPrinter_eq:
  "addPrinter app printer d =
     d\<lparr>printer_store := printer_store d @
          [updatePrinter app (new_PrinterOutputModel (device_id d)
             (length (configuration printer)) (firmware_version printer)) printer],
       printers := printers d @ [length (printer_store d)]\<rparr>"
  by (simp add: addPrinter_def modify_printer_def Let_def)

lemma upt_Suc_add: "[n..<Suc (n + m)] = n # [Suc n..<Suc (n + m)]"
  by (simp add: upt_conv_Cons del: upt_Suc)

lemma fold_addPrinter:
  "fold (\<lambda>k s. addPrinter app (f k) s) ks d =
     d\<lparr>printer_store := printer_store d @
          map (\<lambda>k. updatePrinter app (new_PrinterOutputModel (device_id d)
             (length (configuration (f k))) (firmware_version (f k))) (f k)) ks,
       printers := printers d @
          [length (printer_store d)..<length (printer_store d) + length ks]\<rparr>"
proof (induction ks arbitrary: d)
  case Nil
  then show ?case by simp
next
  case (Cons k ks)
  have "fold (\<lambda>k s. addPrinter app (f k) s) (k # ks) d =
        fold (\<lambda>k s. addPrinter app (f k) s) ks (addPrinter app (f k) d)"
    by simp
  also note Cons.IH
  finally show ?case
    by (simp add: addPrinter_eq upt_Suc_add del: upt_Suc)
qed

lemma fold_modify_printer:
  "fold (\<lambda>k s. modify_printer (ref k) (upd k) s) ks d =
     d\<lparr>printer_store := fold (\<lambda>k st. st[ref k := upd k (st ! ref k)]) ks (printer_store d)\<rparr>"
  by (induction ks arbitrary: d) (simp_all add: modify_printer_def)

lemma length_fold_list_update:
  "length (fold (\<lambda>k st. st[ref k := g k st]) ks st) = length st"
  by (induction ks arbitrary: st) simp_all

lemma fold_list_update_other:
  "r \<notin> ref ` set ks \<Longrightarrow> fold (\<lambda>k st. st[ref k := g k st]) ks st ! r = st ! r"
  by (induction ks arbitrary: st) auto

lemma fold_list_update_at:
  "k \<in> set ks \<Longrightarrow> distinct (map ref ks) \<Longrightarrow> ref k < length st \<Longrightarrow>
   fold (\<lambda>k st. st[ref k := upd k (st ! ref k)]) ks st ! ref k = upd k (st ! ref k)"
proof (induction ks arbitrary: st)
  case Nil
  then show ?case by simp
next
  case (Cons a ks)
  show ?case
  proof (cases "a = k")
    case True
    with Cons.prems have "ref k \<notin> ref ` set ks" by auto
    with True Cons.prems(3) show ?thesis
      by (simp add: fold_list_update_other)
  next
    case False
    with Cons.prems have "k \<in> set ks" "ref a \<noteq> ref k" by auto
    with Cons.IH[of "st[ref a := upd a (st ! ref a)]"] Cons.prems show ?thesis
      by simp
  qed
qed

lemma fold_list_update_preserves:
  "(\<And>k m. Q (upd k m) = Q m) \<Longrightarrow>
   Q (fold (\<lambda>k st. st[ref k := upd k (st ! ref k)]) ks st ! r) = Q (st ! r)"
proof (induction ks arbitrary: st)
  case Nil
  then show ?case by simp
next
  case (Cons a ks)
  have "Q (st[ref a := upd a (st ! ref a)] ! r) = Q (st ! r)"
    by (cases "ref a < length st") (auto simp: nth_list_update list_update_beyond Cons.prems)
  with Cons.IH[of "st[ref a := upd a (st ! ref a)]"] Cons.prems show ?case by simp
qed

lemma iter_okD: "iter_ok iter \<Longrightarrow> finite S \<Longrightarrow> set (iter S) = S \<and> distinct (iter S)"
  by (simp add: iter_ok_def)

lemma finite_printer_ids:
  "finite (removed_printer_ids ps d)" "finite (new_printer_ids ps d)"
  "finite (updated_printer_ids ps d)"
  by (simp_all add: removed_printer_ids_def new_printer_ids_def updated_printer_ids_def
        finite_keys)

lemma dict_ref:
  assumes "k \<in> keys (dict_of key xs)"
  shows "map_of (dict_of key xs) k = Some (the (map_of (dict_of key xs) k))"
    and "getitem (dict_of key xs) k = Inr (the (map_of (dict_of key xs) k))"
    and "the (map_of (dict_of key xs) k) \<in> set xs"
    and "key (the (map_of (dict_of key xs) k)) = k"
proof -
  from getitem_keys[OF assms] obtain v where
    v: "getitem (dict_of key xs) k = Inr v" "map_of (dict_of key xs) k = Some v"
    by blast
  with map_of_dict_of[of key xs k v]
  show "map_of (dict_of key xs) k = Some (the (map_of (dict_of key xs) k))"
    and "getitem (dict_of key xs) k = Inr (the (map_of (dict_of key xs) k))"
    and "the (map_of (dict_of key xs) k) \<in> set xs"
    and "key (the (map_of (dict_of key xs) k)) = k"
    by simp_all
qed

lemma dict_ref_inj:
  "S \<subseteq> keys (dict_of key xs) \<Longrightarrow> inj_on (\<lambda>k. the (map_of (dict_of key xs) k)) S"
  by (rule inj_onI) (metis dict_ref(4) subsetD)

lemma updatePrinters_eq:
  assumes "iter_ok iter"
  shows "updatePrinters iter app ps d =
     Inr (emit PrintersChanged
       (fold (\<lambda>k s. modify_printer (the (map_of (current_printers d) k))
                      (\<lambda>model. updatePrinter app model (the (map_of (remote_printers ps) k))) s)
          (iter (updated_printer_ids ps d))
          (fold (\<lambda>k s. addPrinter app (the (map_of (remote_printers ps) k)) s)
             (iter (new_printer_ids ps d))
             (d\<lparr>printers := fold remove1
                  (map (\<lambda>k. the (map_of (current_printers d) k)) (iter (removed_printer_ids ps d)))
                  (printers d)\<rparr>))))"
proof -
  let ?cur = "current_printers d" and ?rem = "remote_printers ps"
  let ?cref = "\<lambda>k. the (map_of ?cur k)" and ?rref = "\<lambda>k. the (map_of ?rem k)"
  let ?ks1 = "iter (removed_printer_ids ps d)"
  let ?ks2 = "iter (new_printer_ids ps d)"
  let ?ks3 = "iter (updated_printer_ids ps d)"
  from assms have ks1: "set ?ks1 = removed_printer_ids ps d" "distinct ?ks1"
    and ks2: "set ?ks2 = new_printer_ids ps d"
    and ks3: "set ?ks3 = updated_printer_ids ps d"
    by (simp_all add: iter_okD finite_printer_ids)
  have sub1: "set ?ks1 \<subseteq> keys ?cur"
    unfolding ks1 by (auto simp: removed_printer_ids_def)
  have "distinct (map ?cref ?ks1)"
    using dict_ref_inj[of "set ?ks1" "printer_key d" "printers d"] sub1 ks1(2)
    by (simp add: distinct_map current_printers_def)
  moreover have "?cref ` set ?ks1 \<subseteq> set (printers d)"
    using sub1 dict_ref(3)[of _ "printer_key d" "printers d"]
    by (auto simp: current_printers_def)
  ultimately have p1: "for_each
           (\<lambda>printer_guid d.
              case getitem ?cur printer_guid of
                Inl e \<Rightarrow> Inl e
              | Inr r \<Rightarrow> printers_remove r d) ?ks1 d =
         Inr (d\<lparr>printers := fold remove1 (map ?cref ?ks1) (printers d)\<rparr>)"
    using sub1 by (rule printers_removal_phase[rotated])
  have p2: "for_each
              (\<lambda>printer_guid d.
                 case getitem ?rem printer_guid of
                   Inl e \<Rightarrow> Inl e
                 | Inr printer \<Rightarrow> Inr (addPrinter app printer d)) ?ks2 s =
            Inr (fold (\<lambda>k s. addPrinter app (?rref k) s) ?ks2 s)" for s
  proof (rule for_each_total)
    fix x s assume "x \<in> set ?ks2"
    then have "x \<in> keys ?rem" unfolding ks2 by (simp add: new_printer_ids_def)
    then show "(case getitem ?rem x of Inl e \<Rightarrow> Inl e
                | Inr printer \<Rightarrow> Inr (addPrinter app printer s)) =
               Inr (addPrinter app (?rref x) s)"
      using dict_ref(2)[of x uuid ps] by (simp add: remote_printers_def)
  qed
  have p3: "for_each
              (\<lambda>printer_guid d.
                 case getitem ?cur printer_guid of
                   Inl e \<Rightarrow> Inl e
                 | Inr r \<Rightarrow>
                     (case getitem ?rem printer_guid of
                        Inl e \<Rightarrow> Inl e
                      | Inr printer \<Rightarrow>
                          Inr (modify_printer r
                                 (\<lambda>model. updatePrinter app model printer) d))) ?ks3 s =
            Inr (fold (\<lambda>k s. modify_printer (?cref k)
                        (\<lambda>model. updatePrinter app model (?rref k)) s) ?ks3 s)" for s
  proof (rule for_each_total)
    fix x s assume "x \<in> set ?ks3"
    then have "x \<in> keys ?rem" "x \<in> keys ?cur"
      unfolding ks3 by (simp_all add: updated_printer_ids_def)
    then show "(case getitem ?cur x of Inl e \<Rightarrow> Inl e
                | Inr r \<Rightarrow>
                    (case getitem ?rem x of
                       Inl e \<Rightarrow> Inl e
                     | Inr printer \<Rightarrow>
                         Inr (modify_printer r
                                (\<lambda>model. updatePrinter app model printer) s))) =
               Inr (modify_printer (?cref x) (\<lambda>model. updatePrinter app model (?rref x)) s)"
      using dict_ref(2)[of x uuid ps] dict_ref(2)[of x "printer_key d" "printers d"]
      by (simp add: remote_printers_def current_printers_def)
  qed
  show ?thesis
    unfolding updatePrinters_def Let_def p1 p2 p3 by simp
qed

lemma p_key_updatePrinter: "p_key (updatePrinter app model printer) = uuid printer"
  by (simp add: updatePrinter_def Let_def)

lemma length_extruders_updatePrinter:
  "length (p_extruders (updatePrinter app model printer)) = length (p_extruders model)"
  by (simp add: updatePrinter_def Let_def length_extruder_loop)

lemma updatePrinters_result:
  assumes "iter_ok iter"
  shows "updatePrinters iter app ps d =
     Inr (d\<lparr>printer_store :=
              fold (\<lambda>k st. st[the (map_of (current_printers d) k) :=
                      updatePrinter app (st ! the (map_of (current_printers d) k))
                        (the (map_of (remote_printers ps) k))])
                (iter (updated_printer_ids ps d))
                (printer_store d @
                 map (\<lambda>k. updatePrinter app
                        (new_PrinterOutputModel (device_id d)
                           (length (configuration (the (map_of (remote_printers ps) k))))
                           (firmware_version (the (map_of (remote_printers ps) k))))
                        (the (map_of (remote_printers ps) k)))
                   (iter (new_printer_ids ps d))),
            printers :=
              fold remove1
                (map (\<lambda>k. the (map_of (current_printers d) k)) (iter (removed_printer_ids ps d)))
                (printers d) @
              [length (printer_store d)..<
               length (printer_store d) + length (iter (new_printer_ids ps d))],
            events := events d @ [PrintersChanged]\<rparr>)"
  unfolding updatePrinters_eq[OF assms] fold_addPrinter fold_modify_printer
  by (simp add: emit_def)

lemma dict_ref_distinct:
  assumes "distinct (map key xs)" "x \<in> set xs"
  shows "the (map_of (dict_of key xs) (key x)) = x"
proof -
  have k: "key x \<in> keys (dict_of key xs)" using assms(2) by (simp add: keys_dict_of)
  from dict_ref(3,4)[OF k] assms show ?thesis
    by (auto simp: distinct_map dest: inj_onD)
qed

lemma updatePrinters_result':
  assumes "iter_ok iter"
  shows "updatePrinters iter app ps d =
     Inr (d\<lparr>printer_store :=
              fold (\<lambda>k st. st[current_printer d k :=
                      updatePrinter app (st ! current_printer d k) (remote_printer ps k)])
                (iter (updated_printer_ids ps d))
                (printer_store d @
                 map (\<lambda>k. new_printer_model app d (remote_printer ps k))
                   (iter (new_printer_ids ps d))),
            printers :=
              fold remove1 (map (current_printer d) (iter (removed_printer_ids ps d)))
                (printers d) @
              [length (printer_store d)..<
               length (printer_store d) + length (iter (new_printer_ids ps d))],
            events := events d @ [PrintersChanged]\<rparr>)"
  unfolding updatePrinters_result[OF assms] current_printer_def remote_printer_def
    new_printer_model_def
  by (simp add: comp_def)

lemma current_printer_facts:
  assumes "k \<in> keys (current_printers d)"
  shows "current_printer d k \<in> set (printers d)"
    and "printer_key d (current_printer d k) = k"
  using dict_ref(3,4)[of k "printer_key d" "printers d"] assms
  by (simp_all add: current_printers_def current_printer_def)

lemma current_printer_key:
  "printers_wf d \<Longrightarrow> r \<in> set (printers d) \<Longrightarrow> current_printer d (printer_key d r) = r"
  using dict_ref_distinct[of "printer_key d" "printers d" r]
  by (simp add: printers_wf_def current_printer_def current_printers_def)

lemma remote_printer_facts:
  assumes "k \<in> keys (remote_printers ps)"
  shows "remote_printer ps k \<in> set ps" and "uuid (remote_printer ps k) = k"
  using dict_ref(3,4)[of k uuid ps] assms
  by (simp_all add: remote_printers_def remote_printer_def)

lemma keys_current_printers: "keys (current_printers d) = printer_key d ` set (printers d)"
  by (simp add: current_printers_def keys_dict_of)

lemma keys_remote_printers: "keys (remote_printers ps) = uuid ` set ps"
  by (simp add: remote_printers_def keys_dict_of)

lemma updatePrinters_wf_facts:
  assumes iter: "iter_ok iter" and wf: "printers_wf d"
    and res: "updatePrinters iter app ps d = Inr d'"
  shows "printers d' =
           filter (\<lambda>r. printer_key d r \<in> uuid ` set ps) (printers d) @
           [length (printer_store d)..<
            length (printer_store d) + length (iter (new_printer_ids ps d))]"
    and "length (printer_store d') =
           length (printer_store d) + length (iter (new_printer_ids ps d))"
    and "\<And>r. r \<in> set (printers d) \<Longrightarrow> printer_key d r \<in> uuid ` set ps \<Longrightarrow>
           printer_store d' ! r =
             updatePrinter app (printer_store d ! r) (remote_printer ps (printer_key d r))"
    and "\<And>i. i < length (iter (new_printer_ids ps d)) \<Longrightarrow>
           printer_store d' ! (length (printer_store d) + i) =
             new_printer_model app d (remote_printer ps (iter (new_printer_ids ps d) ! i))"
proof -
  let ?n = "length (printer_store d)"
  let ?ks1 = "iter (removed_printer_ids ps d)"
  let ?ks2 = "iter (new_printer_ids ps d)"
  let ?ks3 = "iter (updated_printer_ids ps d)"
  let ?news = "map (\<lambda>k. new_printer_model app d (remote_printer ps k)) ?ks2"
  let ?upd = "\<lambda>k st. st[current_printer d k :=
                updatePrinter app (st ! current_printer d k) (remote_printer ps k)]"
  from iter have ks1: "set ?ks1 = removed_printer_ids ps d"
    and ks3: "set ?ks3 = updated_printer_ids ps d" "distinct ?ks3"
    by (simp_all add: iter_okD finite_printer_ids)
  from wf have lt: "\<And>r. r \<in> set (printers d) \<Longrightarrow> r < ?n"
    and dk: "distinct (map (printer_key d) (printers d))"
    by (simp_all add: printers_wf_def list_all_iff)
  from dk have dist: "distinct (printers d)" by (simp add: distinct_map)
  from res have d': "d' = d\<lparr>printer_store := fold ?upd ?ks3 (printer_store d @ ?news),
            printers := fold remove1 (map (current_printer d) ?ks1) (printers d) @
              [?n..<?n + length ?ks2],
            events := events d @ [PrintersChanged]\<rparr>"
    unfolding updatePrinters_result'[OF iter] by simp
  have mem: "r \<in> current_printer d ` set ?ks1 \<longleftrightarrow> printer_key d r \<notin> uuid ` set ps"
    if "r \<in> set (printers d)" for r
  proof
    assume "r \<in> current_printer d ` set ?ks1"
    then obtain k where k: "k \<in> removed_printer_ids ps d" "r = current_printer d k"
      using ks1 by auto
    then have "k \<in> keys (current_printers d)" "k \<notin> uuid ` set ps"
      by (simp_all add: removed_printer_ids_def keys_remote_printers)
    with k current_printer_facts(2)[of k d] show "printer_key d r \<notin> uuid ` set ps"
      by simp
  next
    assume "printer_key d r \<notin> uuid ` set ps"
    with that have "printer_key d r \<in> removed_printer_ids ps d"
      by (simp add: removed_printer_ids_def keys_remote_printers keys_current_printers)
    moreover have "current_printer d (printer_key d r) = r"
      using wf that by (rule current_printer_key)
    ultimately show "r \<in> current_printer d ` set ?ks1"
      using ks1 by force
  qed
  have "fold remove1 (map (current_printer d) ?ks1) (printers d) =
        filter (\<lambda>r. r \<notin> set (map (current_printer d) ?ks1)) (printers d)"
    using dist by (rule fold_remove1_distinct)
  also have "\<dots> = filter (\<lambda>r. printer_key d r \<in> uuid ` set ps) (printers d)"
    by (rule filter_cong) (simp_all add: mem)
  finally show "printers d' =
           filter (\<lambda>r. printer_key d r \<in> uuid ` set ps) (printers d) @
           [?n..<?n + length ?ks2]"
    by (simp add: d')
  show "length (printer_store d') = ?n + length ?ks2"
    by (simp add: d' length_fold_list_update)
  have ks3k: "k \<in> keys (current_printers d)" if "k \<in> set ?ks3" for k
    using that unfolding ks3 by (simp add: updated_printer_ids_def)
  have refs3: "current_printer d k \<in> set (printers d)" if "k \<in> set ?ks3" for k
    using ks3k[OF that] by (rule current_printer_facts(1))
  have dist3: "distinct (map (current_printer d) ?ks3)"
  proof -
    have "inj_on (current_printer d) (set ?ks3)"
      by (rule inj_onI) (metis current_printer_facts(2) ks3k)
    with ks3(2) show ?thesis by (simp add: distinct_map)
  qed
  show "printer_store d' ! r =
          updatePrinter app (printer_store d ! r) (remote_printer ps (printer_key d r))"
    if r: "r \<in> set (printers d)" and k: "printer_key d r \<in> uuid ` set ps" for r
  proof -
    let ?k = "printer_key d r"
    have kin: "?k \<in> set ?ks3"
      unfolding ks3 using r k
      by (simp add: updated_printer_ids_def keys_remote_printers keys_current_printers)
    have cr: "current_printer d ?k = r" using wf r by (rule current_printer_key)
    have "current_printer d ?k < length (printer_store d @ ?news)"
      using lt[OF r] cr by simp
    from fold_list_update_at[of ?k ?ks3 "current_printer d" "printer_store d @ ?news"
        "\<lambda>k m. updatePrinter app m (remote_printer ps k)", OF kin dist3 this]
    show ?thesis using lt[OF r] by (simp add: d' cr nth_append)
  qed
  show "printer_store d' ! (?n + i) = new_printer_model app d (remote_printer ps (?ks2 ! i))"
    if i: "i < length ?ks2" for i
  proof -
    have "?n + i \<notin> current_printer d ` set ?ks3"
      using refs3 lt by fastforce
    with i show ?thesis by (simp add: d' fold_list_update_other nth_append)
  qed
qed

lemma p_key_new_printer_model: "p_key (new_printer_model app d printer) = uuid printer"
  by (simp add: new_printer_model_def p_key_updatePrinter)

lemma filter_key_singleton:
  "distinct (map f xs) \<Longrightarrow> x \<in> set xs \<Longrightarrow> filter (\<lambda>y. f y = f x) xs = [x]"
proof (induction xs)
  case Nil
  then show ?case by simp
next
  case (Cons a xs)
  show ?case
  proof (cases "a = x")
    case True
    with Cons.prems have "filter (\<lambda>y. f y = f x) xs = []"
      by (auto simp: filter_empty_conv) (metis image_eqI)
    with True show ?thesis by simp
  next
    case False
    with Cons show ?thesis by auto
  qed
qed

lemma updatePrinters_keys:
  assumes iter: "iter_ok iter" and wf: "printers_wf d"
    and res: "updatePrinters iter app ps d = Inr d'"
  shows "map (printer_key d') (printers d') =
           filter (\<lambda>k. k \<in> uuid ` set ps) (map (printer_key d) (printers d)) @
           iter (new_printer_ids ps d)"
proof -
  let ?n = "length (printer_store d)"
  let ?ks2 = "iter (new_printer_ids ps d)"
  let ?S = "filter (\<lambda>r. printer_key d r \<in> uuid ` set ps) (printers d)"
  note f = updatePrinters_wf_facts[OF iter wf res]
  from iter have ks2: "set ?ks2 = new_printer_ids ps d"
    by (simp add: iter_okD finite_printer_ids)
  have new_remote: "k \<in> keys (remote_printers ps)" if "k \<in> set ?ks2" for k
    using that unfolding ks2 by (simp add: new_printer_ids_def)
  have "map (printer_key d') ?S = map (printer_key d) ?S"
  proof (rule map_cong[OF refl])
    fix r assume "r \<in> set ?S"
    then have r: "r \<in> set (printers d)" "printer_key d r \<in> uuid ` set ps" by auto
    from r(2) have "uuid (remote_printer ps (printer_key d r)) = printer_key d r"
      by (intro remote_printer_facts(2)) (simp add: keys_remote_printers)
    with f(3)[OF r] show "printer_key d' r = printer_key d r"
      by (simp add: printer_key_def p_key_updatePrinter)
  qed
  moreover have "map (printer_key d') [?n..<?n + length ?ks2] = ?ks2"
  proof (rule nth_equalityI)
    show "length (map (printer_key d') [?n..<?n + length ?ks2]) = length ?ks2" by simp
  next
    fix i assume "i < length (map (printer_key d') [?n..<?n + length ?ks2])"
    then have i: "i < length ?ks2" by simp
    then have "uuid (remote_printer ps (?ks2 ! i)) = ?ks2 ! i"
      by (intro remote_printer_facts(2) new_remote) simp
    with f(4)[OF i] i show "map (printer_key d') [?n..<?n + length ?ks2] ! i = ?ks2 ! i"
      by (simp add: printer_key_def p_key_new_printer_model)
  qed
  ultimately show ?thesis
    by (simp add: f(1) filter_map comp_def)
qed

lemma updatePrinters_wf:
  assumes iter: "iter_ok iter" and wf: "printers_wf d"
    and res: "updatePrinters iter app ps d = Inr d'"
  shows "printers_wf d'"
proof -
  let ?ks2 = "iter (new_printer_ids ps d)"
  note f = updatePrinters_wf_facts[OF iter wf res]
  from iter have ks2: "set ?ks2 = new_printer_ids ps d" "distinct ?ks2"
    by (simp_all add: iter_okD finite_printer_ids)
  from wf have lt: "\<And>r. r \<in> set (printers d) \<Longrightarrow> r < length (printer_store d)"
    and dk: "distinct (map (printer_key d) (printers d))"
    by (simp_all add: printers_wf_def list_all_iff)
  have "list_all (\<lambda>r. r < length (printer_store d')) (printers d')"
    using lt by (fastforce simp: f(1,2) list_all_iff)
  moreover have "distinct (map (printer_key d') (printers d'))"
    unfolding updatePrinters_keys[OF iter wf res]
    using dk ks2(2) unfolding distinct_append ks2(1)
    by (auto simp: new_printer_ids_def keys_current_printers)
  ultimately show ?thesis by (simp add: printers_wf_def)
qed

lemma printers_wf_init: "printers_wf (init dev_id)"
  by (simp add: printers_wf_def init_def)

lemma iter_ok_sorted_list_of_set: "iter_ok sorted_list_of_set"
  by (simp add: iter_ok_def)


text \<open>
  C4. When a printer of the local list has a key that is the UUID of a printer of the
  remote snapshot, \<^verbatim>\<open>_updatePrinters\<close> returns, and afterwards the same reference
  is still in the list and is the only one listed with that key (the printer was neither
  removed nor added anew), and the model behind the reference is the old model changed by
  \<^verbatim>\<open>_updatePrinter\<close> with a remote printer of that UUID, whatever its other fields are.
  The local list is taken to be well formed (its references are allocated, its keys
  distinct), which reconciliation preserves from the empty list on.
\<close>

theorem updatePrinters_in_place:
  assumes "iter_ok iter" and "printers_wf d"
    and "r \<in> set (printers d)" and "printer_key d r \<in> uuid ` set ps"
  shows "\<exists>d' p. updatePrinters iter app ps d = Inr d' \<and>
           filter (\<lambda>r'. printer_key d' r' = printer_key d r) (printers d') = [r] \<and>
           p \<in> set ps \<and> uuid p = printer_key d r \<and>
           printer_store d' ! r = updatePrinter app (printer_store d ! r) p"
proof -
  from assms(1) obtain d' where res: "updatePrinters iter app ps d = Inr d'"
    using updatePrinters_result' by blast
  note f = updatePrinters_wf_facts[OF assms(1,2) res]
  let ?p = "remote_printer ps (printer_key d r)"
  from assms(4) have p: "?p \<in> set ps" "uuid ?p = printer_key d r"
    by (simp_all add: remote_printer_facts keys_remote_printers)
  have st: "printer_store d' ! r = updatePrinter app (printer_store d ! r) ?p"
    using assms(3,4) by (rule f(3))
  with p(2) have k: "printer_key d' r = printer_key d r"
    by (simp add: printer_key_def p_key_updatePrinter)
  have "r \<in> set (printers d')"
    using assms(3,4) by (simp add: f(1))
  moreover have "distinct (map (printer_key d') (printers d'))"
    using updatePrinters_wf[OF assms(1,2) res] by (simp add: printers_wf_def)
  ultimately have "filter (\<lambda>r'. printer_key d' r' = printer_key d' r) (printers d') = [r]"
    by (intro filter_key_singleton)
  with res p st k show ?thesis by auto
qed

theorem updatePrinters_in_place_witness:
  "iter_ok sorted_list_of_set \<and> printers_wf two_printers \<and>
   0 \<in> set (printers two_printers) \<and>
   printer_key two_printers 0 \<in> uuid ` set [renamed_printer] \<and>
   (\<exists>d' p. updatePrinters sorted_list_of_set (example_app gcode_handler) [renamed_printer]
              two_printers = Inr d' \<and>
      filter (\<lambda>r'. printer_key d' r' = printer_key two_printers 0) (printers d') = [0] \<and>
      p \<in> set [renamed_printer] \<and> uuid p = printer_key two_printers 0 \<and>
      printer_store d' ! 0 =
        updatePrinter (example_app gcode_handler) (printer_store two_printers ! 0) p) \<and>
   (case updatePrinters sorted_list_of_set (example_app gcode_handler) [renamed_printer]
           two_printers of
      Inl e \<Rightarrow> False
    | Inr d' \<Rightarrow> printers d' = [0] \<and> p_name (printer_store d' ! 0) = ''Workshop'')"
proof -
  have w: "printers_wf two_printers" by code_simp
  have r: "0 \<in> set (printers two_printers)" by code_simp
  have k: "printer_key two_printers 0 \<in> uuid ` set [renamed_printer]" by code_simp
  have e: "(case updatePrinters sorted_list_of_set (example_app gcode_handler) [renamed_printer]
           two_printers of
      Inl e \<Rightarrow> False
    | Inr d' \<Rightarrow> printers d' = [0] \<and> p_name (printer_store d' ! 0) = ''Workshop'')"
    by code_simp
  from updatePrinters_in_place[OF iter_ok_sorted_list_of_set w r k, of "example_app gcode_handler"]
    iter_ok_sorted_list_of_set w r k e
  show ?thesis by blast
qed

lemma updatePrinters_total:
  "iter_ok iter \<Longrightarrow> \<exists>d'. updatePrinters iter app ps d = Inr d'"
  using updatePrinters_result' by blast

lemma updatePrinters_extruders:
  assumes "iter_ok iter" and "updatePrinters iter app ps d = Inr d'"
    and "r < length (printer_store d)"
  shows "length (p_extruders (printer_store d' ! r)) =
         length (p_extruders (printer_store d ! r))"
proof -
  let ?news = "map (\<lambda>k. new_printer_model app d (remote_printer ps k))
                 (iter (new_printer_ids ps d))"
  have "printer_store d' =
          fold (\<lambda>k st. st[current_printer d k :=
                  updatePrinter app (st ! current_printer d k) (remote_printer ps k)])
            (iter (updated_printer_ids ps d)) (printer_store d @ ?news)"
    using assms(2) unfolding updatePrinters_result'[OF assms(1)] by auto
  then have "length (p_extruders (printer_store d' ! r)) =
             length (p_extruders ((printer_store d @ ?news) ! r))"
    using fold_list_update_preserves[of "\<lambda>m. length (p_extruders m)"
        "\<lambda>k m. updatePrinter app m (remote_printer ps k)" "current_printer d"
        "iter (updated_printer_ids ps d)" "printer_store d @ ?news" r]
    by (simp add: length_extruders_updatePrinter)
  with assms(3) show ?thesis by (simp add: nth_append)
qed

section \<open>Reconciling the print jobs\<close>

lemma print_jobs_removal_phase:
  assumes "set ks \<subseteq> keys current"
    and "distinct (map (\<lambda>k. the (map_of current k)) ks)"
    and "(\<lambda>k. the (map_of current k)) ` set ks \<subseteq> set (print_jobs s)"
  shows "for_each
           (\<lambda>removed_job_id d.
              case getitem current removed_job_id of
                Inl e \<Rightarrow> Inl e
              | Inr r \<Rightarrow> print_jobs_remove r d) ks s =
         Inr (s\<lparr>print_jobs := fold remove1 (map (\<lambda>k. the (map_of current k)) ks) (print_jobs s)\<rparr>)"
  using assms
proof (induction ks arbitrary: s)
  case Nil
  then show ?case by simp
next
  case (Cons k ks)
  let ?ref = "\<lambda>k. the (map_of current k)"
  from Cons.prems(1) obtain r where r: "getitem current k = Inr r" "map_of current k = Some r"
    using getitem_keys[of k current] by auto
  then have rk: "?ref k = r" by simp
  with Cons.prems(3) have rin: "r \<in> set (print_jobs s)" by auto
  let ?s = "s\<lparr>print_jobs := remove1 r (print_jobs s)\<rparr>"
  have "?ref ` set ks \<subseteq> set (print_jobs ?s)"
  proof
    fix x assume x: "x \<in> ?ref ` set ks"
    from Cons.prems(2) have "?ref k \<notin> ?ref ` set ks" by simp
    with x rk have "x \<noteq> r" by blast
    moreover from x Cons.prems(3) have "x \<in> set (print_jobs s)" by auto
    ultimately show "x \<in> set (print_jobs ?s)" by simp
  qed
  with Cons.IH[of ?s] Cons.prems have
    "for_each
       (\<lambda>removed_job_id d.
          case getitem current removed_job_id of
            Inl e \<Rightarrow> Inl e
          | Inr r \<Rightarrow> print_jobs_remove r d) ks ?s =
     Inr (?s\<lparr>print_jobs := fold remove1 (map ?ref ks) (print_jobs ?s)\<rparr>)"
    by simp
  with r rin show ?case by (simp add: print_jobs_remove_def)
qed

text \<open>What adding jobs leaves alone.\<close>

lemma addPrintJob_frame:
  "events (addPrintJob job d) = events d"
  "printers (addPrintJob job d) = printers d"
  "printer_store (addPrintJob job d) = printer_store d"
  "\<exists>models. job_store (addPrintJob job d) = job_store d @ models"
  by (simp_all add: addPrintJob_def Let_def split: option.splits)

lemma fold_addPrintJob_frame:
  "events (fold (\<lambda>k s. addPrintJob (f k) s) ks d) = events d"
  "\<exists>models. job_store (fold (\<lambda>k s. addPrintJob (f k) s) ks d) = job_store d @ models"
proof (induction ks arbitrary: d)
  case Nil
  {
    case 1
    then show ?case by simp
  next
    case 2
    then show ?case by simp
  }
next
  case (Cons k ks)
  {
    case 1
    then show ?case by (simp add: Cons.IH(1) addPrintJob_frame(1))
  next
    case 2
    from addPrintJob_frame(4)[of "f k" d] obtain ms where
      ms: "job_store (addPrintJob (f k) d) = job_store d @ ms" by blast
    from Cons.IH(2)[of "addPrintJob (f k) d"] obtain ms' where
      "job_store (fold (\<lambda>k s. addPrintJob (f k) s) ks (addPrintJob (f k) d)) =
       job_store (addPrintJob (f k) d) @ ms'" by blast
    with ms show ?case by simp
  }
qed

lemma fold_modify_job:
  "fold (\<lambda>k s. modify_job (ref k) (upd k) s) ks d =
     d\<lparr>job_store := fold (\<lambda>k st. st[ref k := upd k (st ! ref k)]) ks (job_store d)\<rparr>"
  by (induction ks arbitrary: d) (simp_all add: modify_job_def)

lemma finite_job_ids:
  "finite (removed_job_ids jobs d)" "finite (new_job_ids jobs d)"
  "finite (updated_job_ids jobs d)"
  by (simp_all add: removed_job_ids_def new_job_ids_def updated_job_ids_def
        current_job_ids_def remote_job_ids_def finite_keys)

lemma updatePrintJobs_eq:
  assumes "iter_ok iter"
  shows "updatePrintJobs iter jobs d =
     Inr (let d3 =
            fold (\<lambda>k s. modify_job (the (map_of (current_jobs d) k))
                      (\<lambda>model. updateUM3PrintJobOutputModel model
                                 (the (map_of (remote_jobs jobs) k))) s)
              (iter (updated_job_ids jobs d))
              (fold (\<lambda>k s. addPrintJob (the (map_of (remote_jobs jobs) k)) s)
                 (iter (new_job_ids jobs d))
                 (d\<lparr>print_jobs := fold remove1
                      (map (\<lambda>k. the (map_of (current_jobs d) k)) (iter (removed_job_ids jobs d)))
                      (print_jobs d)\<rparr>))
          in if remote_job_ids jobs \<noteq> current_job_ids d then emit PrintJobsChanged d3
             else d3)"
proof -
  let ?cur = "current_jobs d" and ?rem = "remote_jobs jobs"
  let ?cref = "\<lambda>k. the (map_of ?cur k)" and ?rref = "\<lambda>k. the (map_of ?rem k)"
  let ?ks1 = "iter (removed_job_ids jobs d)"
  let ?ks2 = "iter (new_job_ids jobs d)"
  let ?ks3 = "iter (updated_job_ids jobs d)"
  from assms have ks1: "set ?ks1 = removed_job_ids jobs d" "distinct ?ks1"
    and ks2: "set ?ks2 = new_job_ids jobs d"
    and ks3: "set ?ks3 = updated_job_ids jobs d"
    by (simp_all add: iter_okD finite_job_ids)
  have sub1: "set ?ks1 \<subseteq> keys ?cur"
    unfolding ks1 by (auto simp: removed_job_ids_def current_job_ids_def)
  have "distinct (map ?cref ?ks1)"
    using dict_ref_inj[of "set ?ks1" "job_key d" "print_jobs d"] sub1 ks1(2)
    by (simp add: distinct_map current_jobs_def)
  moreover have "?cref ` set ?ks1 \<subseteq> set (print_jobs d)"
    using sub1 dict_ref(3)[of _ "job_key d" "print_jobs d"]
    by (auto simp: current_jobs_def)
  ultimately have p1: "for_each
           (\<lambda>removed_job_id d.
              case getitem ?cur removed_job_id of
                Inl e \<Rightarrow> Inl e
              | Inr r \<Rightarrow> print_jobs_remove r d) ?ks1 d =
         Inr (d\<lparr>print_jobs := fold remove1 (map ?cref ?ks1) (print_jobs d)\<rparr>)"
    using sub1 by (rule print_jobs_removal_phase[rotated])
  have p2: "for_each
              (\<lambda>new_job_id d.
                 case getitem ?rem new_job_id of
                   Inl e \<Rightarrow> Inl e
                 | Inr job \<Rightarrow> Inr (addPrintJob job d)) ?ks2 s =
            Inr (fold (\<lambda>k s. addPrintJob (?rref k) s) ?ks2 s)" for s
  proof (rule for_each_total)
    fix x s assume "x \<in> set ?ks2"
    then have "x \<in> keys ?rem" unfolding ks2 by (simp add: new_job_ids_def remote_job_ids_def)
    then show "(case getitem ?rem x of Inl e \<Rightarrow> Inl e
                | Inr job \<Rightarrow> Inr (addPrintJob job s)) =
               Inr (addPrintJob (?rref x) s)"
      using dict_ref(2)[of x job_uuid jobs] by (simp add: remote_jobs_def)
  qed
  have p3: "for_each
              (\<lambda>updated_job_id d.
                 case getitem ?cur updated_job_id of
                   Inl e \<Rightarrow> Inl e
                 | Inr r \<Rightarrow>
                     (case getitem ?rem updated_job_id of
                        Inl e \<Rightarrow> Inl e
                      | Inr job \<Rightarrow>
                          Inr (modify_job r
                                 (\<lambda>model. updateUM3PrintJobOutputModel model job) d))) ?ks3 s =
            Inr (fold (\<lambda>k s. modify_job (?cref k)
                        (\<lambda>model. updateUM3PrintJobOutputModel model (?rref k)) s) ?ks3 s)" for s
  proof (rule for_each_total)
    fix x s assume "x \<in> set ?ks3"
    then have "x \<in> keys ?rem" "x \<in> keys ?cur"
      unfolding ks3 by (simp_all add: updated_job_ids_def remote_job_ids_def current_job_ids_def)
    then show "(case getitem ?cur x of Inl e \<Rightarrow> Inl e
                | Inr r \<Rightarrow>
                    (case getitem ?rem x of
                       Inl e \<Rightarrow> Inl e
                     | Inr job \<Rightarrow>
                         Inr (modify_job r
                                (\<lambda>model. updateUM3PrintJobOutputModel model job) s))) =
               Inr (modify_job (?cref x)
                      (\<lambda>model. updateUM3PrintJobOutputModel model (?rref x)) s)"
      using dict_ref(2)[of x job_uuid jobs] dict_ref(2)[of x "job_key d" "print_jobs d"]
      by (simp add: remote_jobs_def current_jobs_def)
  qed
  show ?thesis
    unfolding updatePrintJobs_def Let_def p1 p2 p3 by simp
qed

lemma keys_current_jobs: "current_job_ids d = job_key d ` set (print_jobs d)"
  by (simp add: current_job_ids_def current_jobs_def keys_dict_of)

lemma keys_remote_jobs: "remote_job_ids jobs = job_uuid ` set jobs"
  by (simp add: remote_job_ids_def remote_jobs_def keys_dict_of)

lemma updatePrintJobs_total:
  "iter_ok iter \<Longrightarrow> \<exists>d'. updatePrintJobs iter jobs d = Inr d'"
  using updatePrintJobs_eq by blast

lemma updateJob_frame:
  "(\<lambda>m. (j_controller m, j_key m, j_name m, j_assignedPrinter m))
     (updateUM3PrintJobOutputModel model job) =
   (\<lambda>m. (j_controller m, j_key m, j_name m, j_assignedPrinter m)) model"
  by (simp add: updateUM3PrintJobOutputModel_def)

lemma updatePrintJobs_frame:
  assumes "iter_ok iter" and "updatePrintJobs iter jobs d = Inr d'"
    and "r < length (job_store d)"
  shows "j_controller (job_store d' ! r) = j_controller (job_store d ! r)"
    and "j_key (job_store d' ! r) = j_key (job_store d ! r)"
    and "j_name (job_store d' ! r) = j_name (job_store d ! r)"
    and "j_assignedPrinter (job_store d' ! r) = j_assignedPrinter (job_store d ! r)"
proof -
  let ?Q = "\<lambda>m. (j_controller m, j_key m, j_name m, j_assignedPrinter m)"
  let ?d1 = "d\<lparr>print_jobs := fold remove1
                (map (\<lambda>k. the (map_of (current_jobs d) k)) (iter (removed_job_ids jobs d)))
                (print_jobs d)\<rparr>"
  let ?d2 = "fold (\<lambda>k s. addPrintJob (the (map_of (remote_jobs jobs) k)) s)
               (iter (new_job_ids jobs d)) ?d1"
  from fold_addPrintJob_frame(2)[of "\<lambda>k. the (map_of (remote_jobs jobs) k)"
      "iter (new_job_ids jobs d)" ?d1]
  obtain ms where ms: "job_store ?d2 = job_store d @ ms" by auto
  have "job_store d' =
          fold (\<lambda>k st. st[the (map_of (current_jobs d) k) :=
                  updateUM3PrintJobOutputModel (st ! the (map_of (current_jobs d) k))
                    (the (map_of (remote_jobs jobs) k))])
            (iter (updated_job_ids jobs d)) (job_store ?d2)"
    using assms(2) unfolding updatePrintJobs_eq[OF assms(1)] fold_modify_job
    by (auto simp: Let_def emit_def split: if_splits)
  then have "?Q (job_store d' ! r) = ?Q (job_store ?d2 ! r)"
    using fold_list_update_preserves[of ?Q
        "\<lambda>k m. updateUM3PrintJobOutputModel m (the (map_of (remote_jobs jobs) k))"
        "\<lambda>k. the (map_of (current_jobs d) k)" "iter (updated_job_ids jobs d)"
        "job_store ?d2" r]
    by (simp add: updateJob_frame)
  also have "\<dots> = ?Q (job_store d ! r)"
    using assms(3) by (simp add: ms nth_append)
  finally show "j_controller (job_store d' ! r) = j_controller (job_store d ! r)"
    and "j_key (job_store d' ! r) = j_key (job_store d ! r)"
    and "j_name (job_store d' ! r) = j_name (job_store d ! r)"
    and "j_assignedPrinter (job_store d' ! r) = j_assignedPrinter (job_store d ! r)"
    by simp_all
qed

text \<open>
  C7. A reconciliation of the print jobs returns, and it emits \<^verbatim>\<open>printJobsChanged\<close>
  (once, as its last act, and nothing else) exactly if the set of UUIDs of the remote
  snapshot is not the set of keys of the jobs listed before: a pass that only updates
  the fields of the jobs listed emits nothing.
\<close>

theorem updatePrintJobs_notifies_on_key_change:
  assumes "iter_ok iter"
  shows "\<exists>d'. updatePrintJobs iter jobs d = Inr d' \<and>
           events d' = events d @
             (if job_uuid ` set jobs \<noteq> job_key d ` set (print_jobs d)
              then [PrintJobsChanged] else [])"
  unfolding updatePrintJobs_eq[OF assms] fold_modify_job keys_current_jobs keys_remote_jobs
  by (simp add: Let_def emit_def fold_addPrintJob_frame(1))

theorem updatePrintJobs_notifies_on_key_change_witness:
  "iter_ok sorted_list_of_set \<and>
   (\<exists>d'. updatePrintJobs sorted_list_of_set [progressed_job] one_job = Inr d' \<and>
          events d' = events one_job) \<and>
   (\<exists>d'. updatePrintJobs sorted_list_of_set [progressed_job, example_job ''J2'' ''P2''] one_job
            = Inr d' \<and>
          events d' = events one_job @ [PrintJobsChanged]) \<and>
   (\<exists>d'. updatePrintJobs sorted_list_of_set [] one_job = Inr d' \<and>
          events d' = events one_job @ [PrintJobsChanged])"
proof -
  note i = iter_ok_sorted_list_of_set
  have k1: "job_uuid ` set [progressed_job] = job_key one_job ` set (print_jobs one_job)"
    by code_simp
  have k2: "job_uuid ` set [progressed_job, example_job ''J2'' ''P2'']
              \<noteq> job_key one_job ` set (print_jobs one_job)"
    by code_simp
  have k3: "job_uuid ` set [] \<noteq> job_key one_job ` set (print_jobs one_job)"
    by code_simp
  from updatePrintJobs_notifies_on_key_change[OF i, of "[progressed_job]" one_job] k1
  have 1: "\<exists>d'. updatePrintJobs sorted_list_of_set [progressed_job] one_job = Inr d' \<and>
          events d' = events one_job"
    by simp
  from updatePrintJobs_notifies_on_key_change[OF i,
      of "[progressed_job, example_job ''J2'' ''P2'']" one_job] k2
  have 2: "\<exists>d'. updatePrintJobs sorted_list_of_set [progressed_job, example_job ''J2'' ''P2''] one_job
            = Inr d' \<and> events d' = events one_job @ [PrintJobsChanged]"
    by simp
  from updatePrintJobs_notifies_on_key_change[OF i, of "[]" one_job] k3
  have 3: "\<exists>d'. updatePrintJobs sorted_list_of_set [] one_job = Inr d' \<and>
          events d' = events one_job @ [PrintJobsChanged]"
    by simp
  from i 1 2 3 show ?thesis by blast
qed

text \<open>
  C8. \<^verbatim>\<open>_updateUM3PrintJobOutputModel\<close> sets the total time, the elapsed time, the
  owner and the state of the model from the remote job and leaves every other field as
  it is. Over a whole reconciliation of the print jobs, every job model that was in the
  store before keeps its assigned printer, its key, its name and its controller.
\<close>

theorem updateUM3PrintJobOutputModel_frame:
  "updateUM3PrintJobOutputModel model job =
     model\<lparr>j_timeTotal := time_total job, j_timeElapsed := time_elapsed job,
           j_owner := owner job, j_state := job_status job\<rparr> \<and>
   (iter_ok iter \<and> updatePrintJobs iter jobs d = Inr d' \<and> r < length (job_store d) \<longrightarrow>
      j_assignedPrinter (job_store d' ! r) = j_assignedPrinter (job_store d ! r) \<and>
      j_key (job_store d' ! r) = j_key (job_store d ! r) \<and>
      j_name (job_store d' ! r) = j_name (job_store d ! r) \<and>
      j_controller (job_store d' ! r) = j_controller (job_store d ! r))"
  using updatePrintJobs_frame[of iter jobs d d' r]
  by (simp add: updateUM3PrintJobOutputModel_def)

theorem updateUM3PrintJobOutputModel_frame_witness:
  "iter_ok sorted_list_of_set \<and>
   updatePrintJobs sorted_list_of_set [progressed_job] one_job =
     Inr (one_job\<lparr>job_store :=
            [updateUM3PrintJobOutputModel (job_store one_job ! 0) progressed_job]\<rparr>) \<and>
   0 < length (job_store one_job) \<and>
   j_assignedPrinter (job_store one_job ! 0) = Some 0 \<and>
   j_assignedPrinter
     (job_store (one_job\<lparr>job_store :=
        [updateUM3PrintJobOutputModel (job_store one_job ! 0) progressed_job]\<rparr>) ! 0) = Some 0 \<and>
   j_timeElapsed
     (job_store (one_job\<lparr>job_store :=
        [updateUM3PrintJobOutputModel (job_store one_job ! 0) progressed_job]\<rparr>) ! 0) = 50"
proof -
  note i = iter_ok_sorted_list_of_set
  let ?d' = "one_job\<lparr>job_store :=
            [updateUM3PrintJobOutputModel (job_store one_job ! 0) progressed_job]\<rparr>"
  have e: "updatePrintJobs sorted_list_of_set [progressed_job] one_job = Inr ?d'"
    by code_simp
  have l: "0 < length (job_store one_job)" by code_simp
  have a: "j_assignedPrinter (job_store one_job ! 0) = Some 0" by code_simp
  have t: "j_timeElapsed (job_store ?d' ! 0) = 50" by code_simp
  from updateUM3PrintJobOutputModel_frame[of "job_store one_job ! 0" progressed_job
      sorted_list_of_set "[progressed_job]" one_job ?d' 0] i e l a t
  show ?thesis by simp
qed

section \<open>The extruders of a printer model\<close>

text \<open>
  C10. The number of extruders of a printer model is not fixed at 2: \<^verbatim>\<open>_addPrinter\<close>
  creates the model with as many extruders as the remote printer has configurations, and
  a remote printer with one configuration, reconciled into the new device, gives a model
  with one extruder, although \<^verbatim>\<open>_number_of_extruders\<close> is 2.
\<close>

theorem extruder_count_counterexample:
  "(case updatePrinters sorted_list_of_set (example_app gcode_handler)
           [single_extruder_printer] (init ''cluster'') of
      Inl e \<Rightarrow> False
    | Inr d' \<Rightarrow>
        printers d' = [0] \<and> length (p_extruders (printer_store d' ! 0)) = 1 \<and>
        length (p_extruders (printer_store d' ! 0)) \<noteq> 2 \<and> number_of_extruders d' = 2)"
  by code_simp

lemma fold_addPrintJob_printers:
  "printer_store (fold (\<lambda>k s. addPrintJob (f k) s) ks d) = printer_store d \<and>
   printers (fold (\<lambda>k s. addPrintJob (f k) s) ks d) = printers d"
  by (induction ks arbitrary: d) (simp_all add: addPrintJob_frame)

lemma updatePrintJobs_printers:
  assumes "iter_ok iter" and "updatePrintJobs iter jobs d = Inr d'"
  shows "printer_store d' = printer_store d" and "printers d' = printers d"
  using assms(2) unfolding updatePrintJobs_eq[OF assms(1)] fold_modify_job
  by (auto simp: Let_def emit_def fold_addPrintJob_printers split: if_splits)

text \<open>
  C10, as amended. A printer model is created with as many extruders as the remote
  printer has configurations. A reconciliation of the printers changes the number of
  extruders of no model that was in the store before, and a reconciliation of the print
  jobs leaves the store of printer models as it is.
\<close>

theorem extruder_count_fixed_at_construction:
  "length (p_extruders (printer_store (addPrinter app printer d) ! length (printer_store d))) =
     length (configuration printer) \<and>
   (iter_ok iter \<and> updatePrinters iter app ps d = Inr d' \<and> r < length (printer_store d) \<longrightarrow>
      length (p_extruders (printer_store d' ! r)) =
      length (p_extruders (printer_store d ! r))) \<and>
   (iter_ok iter \<and> updatePrintJobs iter jobs d = Inr d'' \<longrightarrow>
      printer_store d'' = printer_store d)"
  using updatePrinters_extruders[of iter app ps d d' r]
    updatePrintJobs_printers(1)[of iter jobs d d'']
  by (simp add: addPrinter_eq length_extruders_updatePrinter new_PrinterOutputModel_def)

theorem extruder_count_fixed_at_construction_witness:
  "iter_ok sorted_list_of_set \<and>
   (\<exists>d'. updatePrinters sorted_list_of_set (example_app gcode_handler) [renamed_printer]
            two_printers = Inr d' \<and>
      length (p_extruders (printer_store d' ! 0)) =
      length (p_extruders (printer_store two_printers ! 0))) \<and>
   (\<exists>d''. updatePrintJobs sorted_list_of_set [example_job ''J1'' ''P1''] two_printers = Inr d'' \<and>
      printer_store d'' = printer_store two_printers) \<and>
   0 < length (printer_store two_printers) \<and>
   length (p_extruders (printer_store two_printers ! 0)) = 2 \<and>
   length (p_extruders (printer_store
      (addPrinter (example_app gcode_handler) single_extruder_printer two_printers) !
        length (printer_store two_printers))) = length (configuration single_extruder_printer) \<and>
   length (configuration single_extruder_printer) = 1"
proof -
  note i = iter_ok_sorted_list_of_set
  obtain d' where e: "updatePrinters sorted_list_of_set (example_app gcode_handler)
      [renamed_printer] two_printers = Inr d'"
    using updatePrinters_total[OF i] by blast
  obtain d'' where e': "updatePrintJobs sorted_list_of_set [example_job ''J1'' ''P1'']
      two_printers = Inr d''"
    using updatePrintJobs_total[OF i] by blast
  have l: "0 < length (printer_store two_printers)" by code_simp
  have t: "length (p_extruders (printer_store two_printers ! 0)) = 2" by code_simp
  have s: "length (configuration single_extruder_printer) = 1" by code_simp
  from extruder_count_fixed_at_construction[of "example_app gcode_handler"
      single_extruder_printer two_printers sorted_list_of_set "[renamed_printer]" d' 0
      "[example_job ''J1'' ''P1'']" d''] i e e' l t s
  show ?thesis by auto
qed

section \<open>Polling\<close>

lemma onStatusCallFinished_total:
  assumes "iter_ok iter"
  shows "\<exists>d1 d2. updatePrinters iter app (status_printers cluster_status) d = Inr d1 \<and>
           updatePrintJobs iter (status_print_jobs cluster_status) d1 = Inr d2 \<and>
           onStatusCallFinished iter app cluster_status d = Inr d2"
proof -
  from updatePrinters_total[OF assms] obtain d1 where
    1: "updatePrinters iter app (status_printers cluster_status) d = Inr d1" by blast
  from updatePrintJobs_total[OF assms] obtain d2 where
    2: "updatePrintJobs iter (status_print_jobs cluster_status) d1 = Inr d2" by blast
  from 1 2 show ?thesis by (auto simp: onStatusCallFinished_def)
qed

text \<open>
  C9. After the update of the base class: if the last response time is set, is not zero
  and lies less than the check interval before now, \<^verbatim>\<open>_update\<close> changes nothing and
  issues no request. If it is unset, or lies at least the interval back, then with an
  account that is not logged in the authentication state becomes \<open>NotAuthenticated\<close>
  and nothing is issued, and with one that is logged in it becomes \<open>Authenticated\<close>
  and exactly one status request is issued. The callback of that request returns, and
  what it does is the reconciliation of the printers followed by that of the print jobs
  on the device the first left. (A clock reading of exactly zero counts as unset in
  Python; \<^verbatim>\<open>time()\<close> is seconds since 1970. Times are real numbers.)
\<close>

theorem update_polls_at_most_once_per_interval:
  "(last_response_time (super_update d) = Some t \<and> t \<noteq> 0 \<and>
      now - t < CHECK_CLUSTER_INTERVAL \<longrightarrow>
      update super_update app now d = super_update d) \<and>
   ((last_response_time (super_update d) = None \<or>
     (last_response_time (super_update d) = Some t \<and> CHECK_CLUSTER_INTERVAL \<le> now - t)) \<longrightarrow>
      update super_update app now d =
        (if isLoggedIn app
         then (super_update d)\<lparr>authentication_state := Authenticated,
                events := events (super_update d) @
                  [GetClusterStatus (device_id (super_update d))]\<rparr>
         else (super_update d)\<lparr>authentication_state := NotAuthenticated\<rparr>)) \<and>
   (iter_ok iter \<longrightarrow>
      (\<exists>d1 d2. updatePrinters iter app (status_printers cluster_status) d = Inr d1 \<and>
         updatePrintJobs iter (status_print_jobs cluster_status) d1 = Inr d2 \<and>
         onStatusCallFinished iter app cluster_status d = Inr d2))"
  using onStatusCallFinished_total[of iter app cluster_status d]
  by (auto simp: update_def Let_def emit_def)

theorem update_polls_at_most_once_per_interval_witness:
  "last_response_time recently_polled = Some 1000 \<and> (1000 :: real) \<noteq> 0 \<and>
   (1001 :: real) - 1000 < CHECK_CLUSTER_INTERVAL \<and>
   update (\<lambda>d. d) (example_app gcode_handler) 1001 recently_polled = recently_polled \<and>
   last_response_time (init ''cluster'') = None \<and>
   update (\<lambda>d. d) (example_app gcode_handler) 1001 (init ''cluster'') =
     (init ''cluster'')\<lparr>authentication_state := Authenticated,
        events := [GetClusterStatus ''cluster'']\<rparr> \<and>
   update (\<lambda>d. d) logged_out_app 1001 (init ''cluster'') =
     (init ''cluster'')\<lparr>authentication_state := NotAuthenticated\<rparr> \<and>
   CHECK_CLUSTER_INTERVAL \<le> 1003 - 1000 \<and>
   update (\<lambda>d. d) logged_out_app 1003 recently_polled =
     recently_polled\<lparr>authentication_state := NotAuthenticated\<rparr> \<and>
   iter_ok sorted_list_of_set \<and>
   (\<exists>d1 d2. updatePrinters sorted_list_of_set (example_app gcode_handler)
               (status_printers snapshot) (init ''cluster'') = Inr d1 \<and>
      updatePrintJobs sorted_list_of_set (status_print_jobs snapshot) d1 = Inr d2 \<and>
      onStatusCallFinished sorted_list_of_set (example_app gcode_handler) snapshot
        (init ''cluster'') = Inr d2) \<and>
   (case onStatusCallFinished sorted_list_of_set (example_app gcode_handler) snapshot
           (init ''cluster'') of
      Inl e \<Rightarrow> False
    | Inr d2 \<Rightarrow> printers d2 = [0, 1] \<and> print_jobs d2 = [0] \<and>
        j_assignedPrinter (job_store d2 ! 0) = Some 1 \<and>
        events d2 = [PrintersChanged, PrintJobsChanged])"
proof -
  note i = iter_ok_sorted_list_of_set
  have a: "last_response_time recently_polled = Some 1000"
    by (simp add: recently_polled_def)
  have b: "last_response_time (init ''cluster'') = None"
    by (simp add: init_def)
  have c: "(1001 :: real) - 1000 < CHECK_CLUSTER_INTERVAL" "CHECK_CLUSTER_INTERVAL \<le> 1003 - 1000"
    by (simp_all add: CHECK_CLUSTER_INTERVAL_def)
  have li: "isLoggedIn (example_app gcode_handler)" "\<not> isLoggedIn logged_out_app"
    by (simp_all add: example_app_def logged_out_app_def)
  have dv: "device_id (init ''cluster'') = ''cluster''" "events (init ''cluster'') = []"
    by (simp_all add: init_def)
  have e: "(case onStatusCallFinished sorted_list_of_set (example_app gcode_handler) snapshot
           (init ''cluster'') of
      Inl e \<Rightarrow> False
    | Inr d2 \<Rightarrow> printers d2 = [0, 1] \<and> print_jobs d2 = [0] \<and>
        j_assignedPrinter (job_store d2 ! 0) = Some 1 \<and>
        events d2 = [PrintersChanged, PrintJobsChanged])"
    by code_simp
  note th = update_polls_at_most_once_per_interval
  from th[of "\<lambda>d. d" recently_polled 1000 1001 "example_app gcode_handler"] a c
  have 1: "update (\<lambda>d. d) (example_app gcode_handler) 1001 recently_polled = recently_polled"
    by simp
  from th[of "\<lambda>d. d" "init ''cluster''" 0 1001 "example_app gcode_handler"] b li dv
  have 2: "update (\<lambda>d. d) (example_app gcode_handler) 1001 (init ''cluster'') =
     (init ''cluster'')\<lparr>authentication_state := Authenticated,
        events := [GetClusterStatus ''cluster'']\<rparr>"
    by simp
  from th[of "\<lambda>d. d" "init ''cluster''" 0 1001 logged_out_app] b li
  have 3: "update (\<lambda>d. d) logged_out_app 1001 (init ''cluster'') =
     (init ''cluster'')\<lparr>authentication_state := NotAuthenticated\<rparr>"
    by simp
  from th[of "\<lambda>d. d" recently_polled 1000 1003 logged_out_app] a c li
  have 4: "update (\<lambda>d. d) logged_out_app 1003 recently_polled =
     recently_polled\<lparr>authentication_state := NotAuthenticated\<rparr>"
    by simp
  from th[of _ "init ''cluster''" _ _ "example_app gcode_handler" sorted_list_of_set snapshot] i
  have 5: "\<exists>d1 d2. updatePrinters sorted_list_of_set (example_app gcode_handler)
               (status_printers snapshot) (init ''cluster'') = Inr d1 \<and>
      updatePrintJobs sorted_list_of_set (status_print_jobs snapshot) d1 = Inr d2 \<and>
      onStatusCallFinished sorted_list_of_set (example_app gcode_handler) snapshot
        (init ''cluster'') = Inr d2"
    by simp
  from a b c 1 2 3 4 5 i e show ?thesis by simp
qed

end
